theory Spec2Isabelle
  imports Complex_Main
begin

section \<open>GraphSim: the model and its trainer (src/graph\_sim.py)\<close>

text \<open>
  The embedding follows \<^verbatim>\<open>src/graph_sim.py\<close>. Python integers are \<open>int\<close>,
  tensor entries are \<open>real\<close> (the idealisation of the float tensors), exceptions are
  values of the type \<open>error\<close> returned on the left of a sum. Where a float operation
  leaves the finite numbers (\<open>0 / 0\<close>, the mean of an empty list) the result has the
  type \<open>fl\<close>.
\<close>

subsection \<open>Errors, floats and configuration\<close>

datatype error =
    AttributeError
  | UnboundLocalError
  | ZeroDivisionError
  | ValueError
  | RuntimeError
  | FileNotFoundError

datatype fl = Fin real | PInf | NInf | NaN

text \<open>Float division: only a non-zero divisor gives a finite quotient.\<close>

definition true_divide :: "real \<Rightarrow> real \<Rightarrow> fl" where
  "true_divide x y =
     (if y \<noteq> 0 then Fin (x / y)
      else if x = 0 then NaN
      else if 0 < x then PInf
      else NInf)"

text \<open>The comparison \<^verbatim>\<open><\<close> on floats: every comparison with \<open>NaN\<close> is false.\<close>

fun fl_less :: "fl \<Rightarrow> fl \<Rightarrow> bool" where
  "fl_less (Fin x) (Fin y) = (x < y)"
| "fl_less (Fin x) PInf = True"
| "fl_less NInf (Fin y) = True"
| "fl_less NInf PInf = True"
| "fl_less _ _ = False"

text \<open>\<^verbatim>\<open>np.mean\<close> of a list: \<open>NaN\<close> for the empty list.\<close>

definition np_mean :: "real list \<Rightarrow> fl" where
  "np_mean xs = (if xs = [] then NaN else Fin (sum_list xs / real (length xs)))"

text \<open>
  The options of \<^verbatim>\<open>args\<close> that the modelled functions read;
  \<open>validate_enabled\<close> is \<^verbatim>\<open>args.validate\<close>.
\<close>

record args =
  tensor_neurons :: int
  histogram :: bool
  bins :: int
  node_graph_matching :: bool
  hidden_size :: int
  tensor_network :: bool
  batch_size :: int
  epochs :: int
  validate_enabled :: bool

subsection \<open>Feature width\<close>

text \<open>
  \<^verbatim>\<open>GraphSim.calculate_bottleneck_features\<close>: the value left in
  \<^verbatim>\<open>self.feature_count\<close>, which sizes \<^verbatim>\<open>fully_connected_first\<close>.
\<close>

definition calculate_bottleneck_features :: "args \<Rightarrow> int" where
  "calculate_bottleneck_features a =
     (let tensor_layer_out = tensor_neurons a * 2;
          feature_count = (if histogram a then tensor_layer_out + bins a else tensor_layer_out)
      in if node_graph_matching a then feature_count + hidden_size a * 4 else feature_count)"

text \<open>
  Modelled from the spec: the output widths of the layers of \<^verbatim>\<open>layers.py\<close>, which
  is not part of the sources. Each tensor-network call yields \<open>tensor_neurons\<close> scores
  (the node and the edge scores are concatenated), the node-graph matching module yields
  a row of width \<open>4 \<times> hidden_size\<close>.
\<close>

definition tensor_scores_width :: "args \<Rightarrow> int" where
  "tensor_scores_width a = tensor_neurons a + tensor_neurons a"

definition node_graph_score_width :: "args \<Rightarrow> int" where
  "node_graph_score_width a = 4 * hidden_size a"

text \<open>
  \<^verbatim>\<open>torch.histc(scores, bins=self.args.bins)\<close> returns a vector of \<open>bins\<close> counts and
  raises a \<^verbatim>\<open>RuntimeError\<close> unless \<open>bins\<close> is positive.
\<close>

definition hist_width :: "args \<Rightarrow> error + int" where
  "hist_width a = (if bins a \<le> 0 then Inl RuntimeError else Inr (bins a))"

text \<open>
  The width of \<^verbatim>\<open>scores\<close> when \<^verbatim>\<open>GraphSim.forward\<close> reaches the first
  fully-connected layer, following the branches of \<^verbatim>\<open>forward\<close> on the flags. With
  neither the tensor network nor the histogram enabled, \<^verbatim>\<open>hist\<close> is read before it
  is bound.
\<close>

definition fused_width :: "args \<Rightarrow> error + int" where
  "fused_width a =
     (case (if histogram a then map_sum id Some (hist_width a) else Inr None) of
        Inl e \<Rightarrow> Inl e
      | Inr hist \<Rightarrow>
          (case (if tensor_network a
                 then (case hist of
                         Some h \<Rightarrow> Inr (tensor_scores_width a + h)
                       | None \<Rightarrow> Inr (tensor_scores_width a))
                 else (case hist of
                         Some h \<Rightarrow> Inr h
                       | None \<Rightarrow> Inl UnboundLocalError)) of
             Inl e \<Rightarrow> Inl e
           | Inr scores \<Rightarrow>
               if node_graph_matching a then Inr (scores + node_graph_score_width a)
               else Inr scores))"

text \<open>
  \<^verbatim>\<open>torch.nn.Linear(feature_count, _)\<close> applied to a row of another width raises a
  \<^verbatim>\<open>RuntimeError\<close>; \<open>forward_width\<close> is the width the regression head accepted.
\<close>

definition forward_width :: "args \<Rightarrow> error + int" where
  "forward_width a =
     (case fused_width a of
        Inl e \<Rightarrow> Inl e
      | Inr w \<Rightarrow> if w = calculate_bottleneck_features a then Inr w else Inl RuntimeError)"

subsection \<open>The histogram feature\<close>

text \<open>
  A two-dimensional tensor: its shape and its entries. A tensor with no rows still has a
  column count, as in torch.
\<close>

record tensor =
  nrows :: nat
  ncols :: nat
  entry :: "nat \<Rightarrow> nat \<Rightarrow> real"

text \<open>\<^verbatim>\<open>torch.mm\<close>: the inner dimensions must agree.\<close>

definition mm :: "tensor \<Rightarrow> tensor \<Rightarrow> error + tensor" where
  "mm A B =
     (if ncols A \<noteq> nrows B then Inl RuntimeError
      else Inr \<lparr>nrows = nrows A, ncols = ncols B,
                entry = (\<lambda>i j. sum_list (map (\<lambda>k. entry A i k * entry B k j) [0..<ncols A]))\<rparr>)"

text \<open>\<^verbatim>\<open>scores.view(-1, 1)\<close>: the entries in row-major order.\<close>

definition view_column :: "tensor \<Rightarrow> real list" where
  "view_column m = concat (map (\<lambda>i. map (entry m i) [0..<ncols m]) [0..<nrows m])"

text \<open>
  \<^verbatim>\<open>torch.histc(input, bins)\<close> with the default \<^verbatim>\<open>min = max = 0\<close>: the range is
  the minimum and maximum of the data (of an empty input: 0 and 0), widened by one on
  each side when the two coincide; an element outside the range is ignored, the
  rightmost bin includes the right boundary. The bin of an element is computed here in
  exact arithmetic; torch computes it in floats, so an element at or next to a bin
  boundary may be counted one bin further in the program. Which elements are counted,
  and so the sum of the counts, is the same.
\<close>

definition bin_of :: "real \<Rightarrow> real \<Rightarrow> nat \<Rightarrow> real \<Rightarrow> nat option" where
  "bin_of lo hi b x =
     (if x < lo \<or> hi < x then None
      else let pos = nat \<lfloor>(x - lo) * real b / (hi - lo)\<rfloor>
           in Some (if pos = b then pos - 1 else pos))"

definition histc :: "real list \<Rightarrow> int \<Rightarrow> error + real list" where
  "histc xs b =
     (if b \<le> 0 then Inl RuntimeError
      else let lo0 = (if xs = [] then 0 else Min (set xs));
               hi0 = (if xs = [] then 0 else Max (set xs));
               lo = (if lo0 = hi0 then lo0 - 1 else lo0);
               hi = (if lo0 = hi0 then hi0 + 1 else hi0)
           in Inr (map (\<lambda>k. real (length (filter (\<lambda>x. bin_of lo hi (nat b) x = Some k) xs)))
                     [0..<nat b]))"

text \<open>
  \<^verbatim>\<open>GraphSim.calculate_histogram\<close>; \<open>forward\<close> passes the node embeddings of the
  first graph (one row per node) and the transposed node embeddings of the second graph
  (one column per node). The result is the row \<^verbatim>\<open>hist.view(1, -1)\<close>.
\<close>

definition calculate_histogram :: "args \<Rightarrow> tensor \<Rightarrow> tensor \<Rightarrow> error + fl list" where
  "calculate_histogram a abstract_features_1 abstract_features_2 =
     (case mm abstract_features_1 abstract_features_2 of
        Inl e \<Rightarrow> Inl e
      | Inr m \<Rightarrow>
          (case histc (view_column m) (bins a) of
             Inl e \<Rightarrow> Inl e
           | Inr hist \<Rightarrow> Inr (map (\<lambda>h. true_divide h (sum_list hist)) hist)))"

subsection \<open>The trainer: collaborators and state\<close>

datatype mode = Training | Validation | Test

datatype correlation = Spearmanr | Kendalltau

type_synonym graph_index_pair = "nat \<times> nat"

text \<open>
  The dataset collaborator (\<^verbatim>\<open>dataset.py\<close>, not part of the sources), as the
  trainer reads it. \<open>get_data\<close> stands for \<^verbatim>\<open>get_data\<close> followed by
  \<^verbatim>\<open>transfer_to_torch\<close>, \<open>target\<close> for \<^verbatim>\<open>data["target"]\<close>, \<open>test_graphs\<close> for
  \<^verbatim>\<open>len(self.dataset.test_graphs)\<close>.
\<close>

record 'd dataset =
  training_graph_index_pairs :: "graph_index_pair list"
  validation_graph_index_pairs :: "graph_index_pair list"
  test_graph_index_pairs :: "graph_index_pair list"
  test_graphs :: nat
  get_data :: "graph_index_pair \<Rightarrow> mode \<Rightarrow> 'd"
  target :: "'d \<Rightarrow> real"

text \<open>
  The other collaborators, with parameters of type \<open>'p\<close> and optimizer states of type
  \<open>'o\<close>: \<open>model\<close> is \<^verbatim>\<open>self.model(data)\<close> in training or evaluation mode, and it may
  raise; \<open>adam\<close> is \<^verbatim>\<open>torch.optim.Adam(self.model.parameters(), ...)\<close>;
  \<open>backward_step\<close> is what \<^verbatim>\<open>losses.backward\<close> followed by
  \<^verbatim>\<open>self.optimizer.step()\<close> does to the optimizer and the parameters for the loss of a
  batch; the last three are the functions of \<^verbatim>\<open>utils.py\<close>.
\<close>

record ('p, 'o, 'd) collaborators =
  model :: "bool \<Rightarrow> 'p \<Rightarrow> 'd \<Rightarrow> error + real"
  adam :: "'p \<Rightarrow> 'o"
  backward_step :: "'o \<Rightarrow> 'p \<Rightarrow> 'd list \<Rightarrow> 'o \<times> 'p"
  calculate_loss :: "real \<Rightarrow> real \<Rightarrow> real"
  prec_at_ks :: "real list \<Rightarrow> real list \<Rightarrow> nat \<Rightarrow> real"
  calculate_ranking_correlation :: "correlation \<Rightarrow> real list \<Rightarrow> real list \<Rightarrow> real"

text \<open>The calls to the optimizer and to \<^verbatim>\<open>torch.save\<close>, in the order they are made.\<close>

datatype call = ZeroGrad | Backward | Step | TorchSave

text \<open>
  The state of a \<^verbatim>\<open>GraphSimTrainer\<close>: the live parameters of \<^verbatim>\<open>self.model\<close> and
  its mode, the attributes that \<^verbatim>\<open>train\<close> creates, the file at
  \<^verbatim>\<open>args.best_model_path\<close> (\<open>None\<close> when there is no such file; the path is taken
  to be writable), and the calls made so far. \<^verbatim>\<open>train\<close> creates
  \<^verbatim>\<open>self.optimizer\<close> first and then \<^verbatim>\<open>min_error\<close>, \<^verbatim>\<open>best_model\<close>,
  \<^verbatim>\<open>best_epoch_index\<close> and \<^verbatim>\<open>epoch_loss_list\<close>: on a trainer on which
  \<^verbatim>\<open>train\<close> was never called none of the five exists, and that is the state with
  \<open>optimizer = None\<close>.
\<close>

record ('p, 'o) trainer =
  params :: 'p
  training :: bool
  optimizer :: "'o option"
  min_error :: fl
  best_model :: "'p option"
  best_epoch_index :: nat
  epoch_loss_list :: "fl list"
  loss_sum :: real
  best_model_file :: "'p option"
  calls :: "call list"

subsection \<open>Training\<close>

text \<open>
  \<^verbatim>\<open>create_batches\<close>: the slices \<^verbatim>\<open>pairs[i : i + batch_size]\<close> for \<open>i\<close> in
  \<^verbatim>\<open>range(0, len(pairs), batch_size)\<close>. A step of 0 raises, a negative step gives
  the empty range.
\<close>

definition create_batches :: "args \<Rightarrow> 'd dataset \<Rightarrow> error + graph_index_pair list list" where
  "create_batches a ds =
     (let pairs = training_graph_index_pairs ds; n = batch_size a
      in if n = 0 then Inl ValueError
         else if n < 0 then Inr []
         else Inr (map (\<lambda>k. take (nat n) (drop (k * nat n) pairs))
                     [0..<(length pairs + nat n - 1) div nat n]))"

text \<open>\<^verbatim>\<open>mse_loss\<close> of two one-element tensors.\<close>

definition mse_loss :: "real \<Rightarrow> real \<Rightarrow> real" where
  "mse_loss input tgt = (input - tgt)\<^sup>2"

text \<open>
  \<^verbatim>\<open>losses\<close> starts as the Python integer 0 and is a tensor from the first addition
  on.
\<close>

datatype losses = PyInt int | LossTensor real

fun add_loss :: "losses \<Rightarrow> real \<Rightarrow> losses" where
  "add_loss (PyInt n) l = LossTensor (real_of_int n + l)"
| "add_loss (LossTensor s) l = LossTensor (s + l)"

text \<open>The loop of \<^verbatim>\<open>process_batch\<close> over the pairs of the batch.\<close>

fun batch_losses ::
  "('p, 'o, 'd) collaborators \<Rightarrow> 'd dataset \<Rightarrow> ('p, 'o) trainer \<Rightarrow> losses
     \<Rightarrow> graph_index_pair list \<Rightarrow> error + losses" where
  "batch_losses c ds st losses [] = Inr losses"
| "batch_losses c ds st losses (graph_index_pair # rest) =
     (let data = get_data ds graph_index_pair Training
      in case model c (training st) (params st) data of
           Inl e \<Rightarrow> Inl e
         | Inr prediction \<Rightarrow>
             batch_losses c ds st (add_loss losses (mse_loss (target ds data) prediction)) rest)"

text \<open>
  \<^verbatim>\<open>process_batch\<close>. Before \<^verbatim>\<open>train\<close> there is no \<^verbatim>\<open>self.optimizer\<close>; an
  integer has no \<^verbatim>\<open>backward\<close>. The result is \<^verbatim>\<open>losses.item()\<close> and the new state.
\<close>

definition process_batch ::
  "('p, 'o, 'd) collaborators \<Rightarrow> 'd dataset \<Rightarrow> ('p, 'o) trainer \<Rightarrow> graph_index_pair list
     \<Rightarrow> error + real \<times> ('p, 'o) trainer" where
  "process_batch c ds st batch =
     (case optimizer st of
        None \<Rightarrow> Inl AttributeError
      | Some opt \<Rightarrow>
          (let st1 = st\<lparr>calls := calls st @ [ZeroGrad]\<rparr>
           in case batch_losses c ds st1 (PyInt 0) batch of
                Inl e \<Rightarrow> Inl e
              | Inr (PyInt n) \<Rightarrow> Inl AttributeError
              | Inr (LossTensor l) \<Rightarrow>
                  (let (opt', p') =
                         backward_step c opt (params st1)
                           (map (\<lambda>graph_index_pair. get_data ds graph_index_pair Training) batch)
                   in Inr (l, st1\<lparr>params := p', optimizer := Some opt',
                                   calls := calls st1 @ [Backward, Step]\<rparr>))))"

text \<open>The loop of \<^verbatim>\<open>validate\<close> over the validation pairs.\<close>

fun validation_scores ::
  "('p, 'o, 'd) collaborators \<Rightarrow> 'd dataset \<Rightarrow> ('p, 'o) trainer
     \<Rightarrow> graph_index_pair list \<Rightarrow> error + real list" where
  "validation_scores c ds st [] = Inr []"
| "validation_scores c ds st (graph_index_pair # rest) =
     (let data = get_data ds graph_index_pair Validation
      in case model c (training st) (params st) data of
           Inl e \<Rightarrow> Inl e
         | Inr prediction \<Rightarrow>
             (case validation_scores c ds st rest of
                Inl e \<Rightarrow> Inl e
              | Inr scores \<Rightarrow> Inr (calculate_loss c prediction (target ds data) # scores)))"

text \<open>
  \<^verbatim>\<open>validate\<close>: the mean score is appended to the history, then compared with
  \<^verbatim>\<open>self.min_error\<close>; a smaller one is recorded and the parameters are saved.
\<close>

definition validate ::
  "('p, 'o, 'd) collaborators \<Rightarrow> 'd dataset \<Rightarrow> nat \<Rightarrow> ('p, 'o) trainer
     \<Rightarrow> error + ('p, 'o) trainer" where
  "validate c ds index st =
     (let st1 = st\<lparr>training := False\<rparr>
      in case validation_scores c ds st1 (validation_graph_index_pairs ds) of
           Inl e \<Rightarrow> Inl e
         | Inr scores \<Rightarrow>
             (let model_error = np_mean scores;
                  st2 = st1\<lparr>epoch_loss_list := epoch_loss_list st1 @ [model_error]\<rparr>
              in if fl_less model_error (min_error st2)
                 then Inr (st2\<lparr>best_epoch_index := index, min_error := model_error,
                               best_model_file := Some (params st2),
                               calls := calls st2 @ [TorchSave]\<rparr>)
                 else Inr st2))"

text \<open>
  The loop of \<^verbatim>\<open>train\<close> over the batches of an epoch; \<^verbatim>\<open>loss_sum / main_index\<close>
  is computed for the progress bar.
\<close>

fun run_batches ::
  "('p, 'o, 'd) collaborators \<Rightarrow> 'd dataset \<Rightarrow> graph_index_pair list list \<Rightarrow> nat
     \<Rightarrow> ('p, 'o) trainer \<Rightarrow> error + ('p, 'o) trainer" where
  "run_batches c ds [] main_index st = Inr st"
| "run_batches c ds (batch # rest) main_index st =
     (case process_batch c ds st batch of
        Inl e \<Rightarrow> Inl e
      | Inr (loss_score, st1) \<Rightarrow>
          (let main_index' = main_index + length batch;
               st2 = st1\<lparr>loss_sum := loss_sum st1 + loss_score * real (length batch)\<rparr>
           in if main_index' = 0 then Inl ZeroDivisionError
              else run_batches c ds rest main_index' st2))"

text \<open>The body of the loop of \<^verbatim>\<open>train\<close> over the epochs.\<close>

definition train_epoch ::
  "('p, 'o, 'd) collaborators \<Rightarrow> 'd dataset \<Rightarrow> args \<Rightarrow> nat \<Rightarrow> ('p, 'o) trainer
     \<Rightarrow> error + ('p, 'o) trainer" where
  "train_epoch c ds a epoch_index st =
     (let st1 = st\<lparr>training := True\<rparr>
      in case create_batches a ds of
           Inl e \<Rightarrow> Inl e
         | Inr batches \<Rightarrow>
             (case run_batches c ds batches 0 (st1\<lparr>loss_sum := 0\<rparr>) of
                Inl e \<Rightarrow> Inl e
              | Inr st2 \<Rightarrow>
                  if validate_enabled a then validate c ds epoch_index st2 else Inr st2))"

fun run_epochs ::
  "('p, 'o, 'd) collaborators \<Rightarrow> 'd dataset \<Rightarrow> args \<Rightarrow> nat list \<Rightarrow> ('p, 'o) trainer
     \<Rightarrow> error + ('p, 'o) trainer" where
  "run_epochs c ds a [] st = Inr st"
| "run_epochs c ds a (epoch_index # rest) st =
     (case train_epoch c ds a epoch_index st of
        Inl e \<Rightarrow> Inl e
      | Inr st' \<Rightarrow> run_epochs c ds a rest st')"

text \<open>The assignments of \<^verbatim>\<open>train\<close> before its loop.\<close>

definition train_setup :: "('p, 'o, 'd) collaborators \<Rightarrow> ('p, 'o) trainer \<Rightarrow> ('p, 'o) trainer" where
  "train_setup c st =
     st\<lparr>optimizer := Some (adam c (params st)), min_error := Fin 100, best_model := None,
        best_epoch_index := 0, epoch_loss_list := []\<rparr>"

text \<open>
  The last statement of \<^verbatim>\<open>train\<close>: with validation enabled, the parameters are
  loaded from \<^verbatim>\<open>args.best_model_path\<close>.
\<close>

definition load_best :: "args \<Rightarrow> ('p, 'o) trainer \<Rightarrow> error + ('p, 'o) trainer" where
  "load_best a st =
     (if validate_enabled a
      then (case best_model_file st of
              None \<Rightarrow> Inl FileNotFoundError
            | Some p \<Rightarrow> Inr (st\<lparr>params := p\<rparr>))
      else Inr st)"

text \<open>\<^verbatim>\<open>train\<close>; \<^verbatim>\<open>trange(self.args.epochs)\<close> is empty for a negative count.\<close>

definition train ::
  "('p, 'o, 'd) collaborators \<Rightarrow> 'd dataset \<Rightarrow> args \<Rightarrow> ('p, 'o) trainer
     \<Rightarrow> error + ('p, 'o) trainer" where
  "train c ds a st =
     (case run_epochs c ds a [0..<nat (epochs a)] (train_setup c st) of
        Inl e \<Rightarrow> Inl e
      | Inr st' \<Rightarrow> load_best a st')"

subsection \<open>Testing\<close>

text \<open>The arrays and lists of \<^verbatim>\<open>test\<close>, and what it reports.\<close>

record test_run =
  scores :: "real list"
  ground_truth :: "real list"
  prediction_list :: "real list"
  prec_at_10_list :: "real list"
  prec_at_20_list :: "real list"
  temp_gt :: "real list"
  temp_pre :: "real list"

record evaluation =
  mse :: fl
  rho :: real
  tau :: real
  p_at_20 :: fl
  p_at_10 :: fl

text \<open>
  The loop of \<^verbatim>\<open>test\<close> over the enumerated test pairs;
  \<^verbatim>\<open>(index + 1) % len(self.dataset.test_graphs)\<close> raises when there are no test
  graphs.
\<close>

fun test_loop ::
  "('p, 'o, 'd) collaborators \<Rightarrow> 'd dataset \<Rightarrow> ('p, 'o) trainer \<Rightarrow> nat
     \<Rightarrow> graph_index_pair list \<Rightarrow> test_run \<Rightarrow> error + test_run" where
  "test_loop c ds st index [] run = Inr run"
| "test_loop c ds st index (test_index_pair # rest) run =
     (let data = get_data ds test_index_pair Test;
          tgt = target ds data;
          run1 = run\<lparr>ground_truth := (ground_truth run)[index := tgt]\<rparr>
      in case model c False (params st) data of
           Inl e \<Rightarrow> Inl e
         | Inr prediction \<Rightarrow>
             (let run2 = run1\<lparr>prediction_list := (prediction_list run1)[index := prediction],
                              scores := (scores run1)[index := calculate_loss c prediction tgt],
                              temp_gt := temp_gt run1 @ [tgt],
                              temp_pre := temp_pre run1 @ [prediction]\<rparr>
              in if test_graphs ds = 0 then Inl ZeroDivisionError
                 else if (index + 1) mod test_graphs ds = 0
                 then test_loop c ds st (index + 1) rest
                        (run2\<lparr>prec_at_10_list :=
                                 prec_at_10_list run2 @ [prec_at_ks c (temp_gt run2) (temp_pre run2) 10],
                               prec_at_20_list :=
                                 prec_at_20_list run2 @ [prec_at_ks c (temp_gt run2) (temp_pre run2) 20],
                               temp_gt := [], temp_pre := []\<rparr>)
                 else test_loop c ds st (index + 1) rest run2))"

text \<open>
  \<^verbatim>\<open>print_evaluation\<close> prints the values it is given and, with validation
  enabled, \<^verbatim>\<open>self.epoch_loss_list\<close>, \<^verbatim>\<open>self.best_epoch_index\<close> and
  \<^verbatim>\<open>self.min_error\<close>, which do not exist before \<^verbatim>\<open>train\<close>. The result is
  what it prints of the validation.
\<close>

definition print_evaluation ::
  "args \<Rightarrow> ('p, 'o) trainer \<Rightarrow> error + (fl list \<times> nat \<times> fl) option" where
  "print_evaluation a st =
     (if validate_enabled a
      then (case optimizer st of
              None \<Rightarrow> Inl AttributeError
            | Some opt \<Rightarrow> Inr (Some (epoch_loss_list st, best_epoch_index st, min_error st)))
      else Inr None)"

text \<open>
  \<^verbatim>\<open>test\<close>: the loop, the values handed to \<^verbatim>\<open>print_evaluation\<close>, and the
  call of \<^verbatim>\<open>print_evaluation\<close>.
\<close>

definition test ::
  "('p, 'o, 'd) collaborators \<Rightarrow> 'd dataset \<Rightarrow> args \<Rightarrow> ('p, 'o) trainer
     \<Rightarrow> error + test_run \<times> evaluation \<times> (fl list \<times> nat \<times> fl) option" where
  "test c ds a st =
     (let n = length (test_graph_index_pairs ds);
          run0 = \<lparr>scores = replicate n 0, ground_truth = replicate n 0,
                  prediction_list = replicate n 0, prec_at_10_list = [], prec_at_20_list = [],
                  temp_gt = [], temp_pre = []\<rparr>
      in case test_loop c ds st 0 (test_graph_index_pairs ds) run0 of
           Inl e \<Rightarrow> Inl e
         | Inr run \<Rightarrow>
             (let ev = \<lparr>mse = np_mean (scores run),
                        rho = calculate_ranking_correlation c Spearmanr (prediction_list run)
                                (ground_truth run),
                        tau = calculate_ranking_correlation c Kendalltau (prediction_list run)
                                (ground_truth run),
                        p_at_20 = np_mean (prec_at_20_list run),
                        p_at_10 = np_mean (prec_at_10_list run)\<rparr>
              in case print_evaluation a st of
                   Inl e \<Rightarrow> Inl e
                 | Inr printed \<Rightarrow> Inr (run, ev, printed)))"

subsection \<open>The argmin of the specification\<close>

text \<open>
  The position of the minimum of a list of validation errors, counted from 0; among
  equal minima the first.
\<close>

definition first_argmin :: "real list \<Rightarrow> nat" where
  "first_argmin es = length (takeWhile (\<lambda>e. e \<noteq> Min (set es)) es)"

subsection \<open>A small instance\<close>

text \<open>
  One training pair, one validation pair, three test pairs for two test graphs. The
  parameters count the optimizer steps; the prediction moves with them, all targets are
  1, and the validation loss is the absolute error times \<open>scale\<close>.
\<close>

definition demo_args :: args where
  "demo_args = \<lparr>tensor_neurons = 16, histogram = True, bins = 8, node_graph_matching = False,
     hidden_size = 16, tensor_network = True, batch_size = 4, epochs = 3,
     validate_enabled = True\<rparr>"

definition demo_dataset :: "graph_index_pair dataset" where
  "demo_dataset = \<lparr>training_graph_index_pairs = [(0, 1)],
     validation_graph_index_pairs = [(1, 0)],
     test_graph_index_pairs = [(0, 0), (0, 1), (1, 0)],
     test_graphs = 2,
     get_data = (\<lambda>graph_index_pair mode. graph_index_pair),
     target = (\<lambda>data. 1)\<rparr>"

definition demo_forward :: "nat \<Rightarrow> real" where
  "demo_forward p = (if p = 1 then 1 / 2 else if p = 2 then 3 / 4 else 5 / 8)"

definition demo_collaborators :: "real \<Rightarrow> (nat, unit, graph_index_pair) collaborators" where
  "demo_collaborators scale =
     \<lparr>model = (\<lambda>training p data. Inr (demo_forward p)),
      adam = (\<lambda>p. ()),
      backward_step = (\<lambda>opt p batch. (opt, Suc p)),
      calculate_loss = (\<lambda>prediction tgt. scale * \<bar>prediction - tgt\<bar>),
      prec_at_ks = (\<lambda>gt pre k. 1),
      calculate_ranking_correlation = (\<lambda>corr pre gt. 1)\<rparr>"

definition demo_trainer :: "(nat, unit) trainer" where
  "demo_trainer = \<lparr>params = 0, training = False, optimizer = None, min_error = Fin 100,
     best_model = None, best_epoch_index = 0, epoch_loss_list = [], loss_sum = 0,
     best_model_file = None, calls = []\<rparr>"

text \<open>The trainer of the instance after \<open>train\<close> with \<open>scale = 8\<close>.\<close>

definition demo_trained :: "(nat, unit) trainer" where
  "demo_trained = \<lparr>params = 2, training = False, optimizer = Some (), min_error = Fin 2,
     best_model = None, best_epoch_index = 1, epoch_loss_list = [Fin 4, Fin 2, Fin 3],
     loss_sum = 1 / 16, best_model_file = Some 2,
     calls = [ZeroGrad, Backward, Step, TorchSave, ZeroGrad, Backward, Step,
              TorchSave, ZeroGrad, Backward, Step]\<rparr>"

text \<open>Tensors with constant entries, for the examples of the histogram.\<close>

definition full :: "nat \<Rightarrow> nat \<Rightarrow> real \<Rightarrow> tensor" where
  "full r c v = \<lparr>nrows = r, ncols = c, entry = (\<lambda>i j. v)\<rparr>"

section \<open>Auxiliary facts\<close>

subsection \<open>Histogram counts\<close>

lemma bin_of_in_range:
  assumes "lo < hi" "lo \<le> x" "x \<le> hi" "0 < b"
  shows "\<exists>k<b. bin_of lo hi b x = Some k"
proof -
  let ?q = "(x - lo) * real b / (hi - lo)"
  have d: "0 < hi - lo" using assms by simp
  have "x - lo \<le> hi - lo" using assms by simp
  then have "(x - lo) * real b \<le> (hi - lo) * real b"
    by (intro mult_right_mono) simp_all
  then have "?q \<le> real b" using d by (simp add: pos_divide_le_eq mult.commute)
  then have "\<lfloor>?q\<rfloor> \<le> int b" by (simp add: floor_le_iff)
  then have "nat \<lfloor>?q\<rfloor> \<le> b" by simp
  then show ?thesis using assms by (auto simp: bin_of_def Let_def)
qed

lemma count_bins:
  assumes "\<forall>x\<in>set xs. \<exists>k<b. f x = Some k"
  shows "sum_list (map (\<lambda>k. real (length (filter (\<lambda>x. f x = Some k) xs))) [0..<b])
           = real (length xs)"
  using assms
proof (induction xs)
  case Nil
  then show ?case by simp
next
  case (Cons x xs)
  then obtain k where k: "k < b" "f x = Some k" by auto
  have one: "(\<Sum>j\<leftarrow>[0..<b]. if j = k then 1 else (0::real)) = 1"
    using k(1) by (simp add: interv_sum_list_conv_sum_set_nat)
  have "(\<Sum>j\<leftarrow>[0..<b]. real (length (filter (\<lambda>y. f y = Some j) (x # xs))))
      = (\<Sum>j\<leftarrow>[0..<b]. (if j = k then 1 else 0)
                          + real (length (filter (\<lambda>y. f y = Some j) xs)))"
    using k(2) by (intro arg_cong[where f = sum_list] map_cong) auto
  also have "\<dots> = 1 + real (length xs)"
    using Cons one by (simp add: sum_list_addf)
  finally show ?case by simp
qed

lemma histc_counts_all:
  assumes "0 < b" "xs \<noteq> []"
  shows "\<exists>h. histc xs b = Inr h \<and> length h = nat b \<and> sum_list h = real (length xs)"
proof -
  define lo0 where "lo0 = Min (set xs)"
  define hi0 where "hi0 = Max (set xs)"
  define lo where "lo = (if lo0 = hi0 then lo0 - 1 else lo0)"
  define hi where "hi = (if lo0 = hi0 then hi0 + 1 else hi0)"
  have le: "lo0 \<le> hi0" using assms(2) by (simp add: lo0_def hi0_def)
  have lt: "lo < hi" using le by (auto simp: lo_def hi_def)
  have rng: "\<forall>x\<in>set xs. lo \<le> x \<and> x \<le> hi"
  proof
    fix x assume "x \<in> set xs"
    then have "lo0 \<le> x" "x \<le> hi0" by (simp_all add: lo0_def hi0_def)
    then show "lo \<le> x \<and> x \<le> hi" by (auto simp: lo_def hi_def)
  qed
  have "\<forall>x\<in>set xs. \<exists>k<nat b. bin_of lo hi (nat b) x = Some k"
    using rng lt assms(1) by (auto intro!: bin_of_in_range)
  from count_bins[OF this]
  have s: "sum_list (map (\<lambda>k. real (length (filter (\<lambda>x. bin_of lo hi (nat b) x = Some k) xs)))
             [0..<nat b]) = real (length xs)" .
  have "histc xs b =
      Inr (map (\<lambda>k. real (length (filter (\<lambda>x. bin_of lo hi (nat b) x = Some k) xs)))
             [0..<nat b])"
    using assms by (simp add: histc_def Let_def lo0_def hi0_def lo_def hi_def)
  then show ?thesis using s by simp
qed

lemma length_view_column: "length (view_column m) = nrows m * ncols m"
  by (simp add: view_column_def length_concat comp_def sum_list_triv)

lemma sum_list_normalised:
  assumes "sum_list h \<noteq> (0::real)"
  shows "sum_list (map (\<lambda>x. x / sum_list h) h) = 1"
proof -
  have "sum_list (map (\<lambda>x. x * inverse (sum_list h)) h) = sum_list h * inverse (sum_list h)"
    by (simp add: sum_list_mult_const)
  then show ?thesis using assms by (simp add: divide_inverse)
qed

subsection \<open>One batch\<close>




lemma process_batch_Inr:
  assumes "process_batch c ds st batch = Inr (l, st')"
  shows "\<exists>opt' p'. st' = st\<lparr>params := p', optimizer := Some opt',
                            calls := calls st @ [ZeroGrad, Backward, Step]\<rparr>"
proof -
  from assms obtain opt where o: "optimizer st = Some opt"
    by (cases "optimizer st") (simp_all add: process_batch_def)
  let ?st1 = "st\<lparr>calls := calls st @ [ZeroGrad]\<rparr>"
  from assms o obtain s where b: "batch_losses c ds ?st1 (PyInt 0) batch = Inr (LossTensor s)"
    by (simp add: process_batch_def Let_def split: sum.splits losses.splits)
  obtain opt' p' where bs: "backward_step c opt (params st)
       (map (\<lambda>graph_index_pair. get_data ds graph_index_pair Training) batch) = (opt', p')"
    by (cases "backward_step c opt (params st)
       (map (\<lambda>graph_index_pair. get_data ds graph_index_pair Training) batch)")
  from assms o b bs have "st' = ?st1\<lparr>params := p', optimizer := Some opt',
                                   calls := calls ?st1 @ [Backward, Step]\<rparr>"
    by (simp add: process_batch_def Let_def)
  then show ?thesis by auto
qed

lemma process_batch_frame:
  assumes "process_batch c ds st batch = Inr (l, st')"
  shows "epoch_loss_list st' = epoch_loss_list st \<and> min_error st' = min_error st
    \<and> best_epoch_index st' = best_epoch_index st \<and> best_model_file st' = best_model_file st
    \<and> count_list (calls st') TorchSave = count_list (calls st) TorchSave"
proof -
  from process_batch_Inr[OF assms] obtain opt' p' where
    "st' = st\<lparr>params := p', optimizer := Some opt',
              calls := calls st @ [ZeroGrad, Backward, Step]\<rparr>" by blast
  then show ?thesis by simp
qed


subsection \<open>One epoch\<close>

lemma run_batches_frame:
  assumes "run_batches c ds batches k st = Inr st'"
  shows "epoch_loss_list st' = epoch_loss_list st \<and> min_error st' = min_error st
    \<and> best_epoch_index st' = best_epoch_index st \<and> best_model_file st' = best_model_file st
    \<and> count_list (calls st') TorchSave = count_list (calls st) TorchSave"
  using assms
proof (induction batches arbitrary: k st)
  case Nil
  then show ?case by simp
next
  case (Cons b bs)
  from Cons.prems obtain l s1 where
    pb: "process_batch c ds st b = Inr (l, s1)"
    by (cases "process_batch c ds st b") auto
  with Cons.prems have rest: "run_batches c ds bs (k + length b)
                 (s1\<lparr>loss_sum := loss_sum s1 + l * real (length b)\<rparr>) = Inr st'"
    by (simp add: Let_def split: if_splits)
  from Cons.IH[OF rest] process_batch_frame[OF pb] show ?case by simp
qed

lemma validate_step:
  assumes "validate c ds i st = Inr st'"
  shows "\<exists>scores. validation_scores c ds (st\<lparr>training := False\<rparr>) (validation_graph_index_pairs ds)
            = Inr scores
          \<and> epoch_loss_list st' = epoch_loss_list st @ [np_mean scores]
          \<and> params st' = params st
          \<and> (if fl_less (np_mean scores) (min_error st)
             then best_epoch_index st' = i \<and> min_error st' = np_mean scores
                \<and> best_model_file st' = Some (params st)
             else best_epoch_index st' = best_epoch_index st \<and> min_error st' = min_error st
                \<and> best_model_file st' = best_model_file st
                \<and> count_list (calls st') TorchSave = count_list (calls st) TorchSave)"
proof -
  from assms obtain scores where
    sc: "validation_scores c ds (st\<lparr>training := False\<rparr>) (validation_graph_index_pairs ds)
           = Inr scores"
    by (cases "validation_scores c ds (st\<lparr>training := False\<rparr>) (validation_graph_index_pairs ds)")
       (simp_all add: validate_def)
  show ?thesis
  proof (cases "fl_less (np_mean scores) (min_error st)")
    case True
    with assms sc have "st' = st\<lparr>training := False,
        epoch_loss_list := epoch_loss_list st @ [np_mean scores],
        best_epoch_index := i, min_error := np_mean scores,
        best_model_file := Some (params st),
        calls := calls st @ [TorchSave]\<rparr>"
      by (simp add: validate_def Let_def)
    with sc True show ?thesis by simp
  next
    case False
    with assms sc have "st' = st\<lparr>training := False,
        epoch_loss_list := epoch_loss_list st @ [np_mean scores]\<rparr>"
      by (simp add: validate_def Let_def)
    with sc False show ?thesis by simp
  qed
qed

lemma train_epoch_step:
  assumes "validate_enabled a" and "train_epoch c ds a i st = Inr st'"
  shows "\<exists>e. epoch_loss_list st' = epoch_loss_list st @ [e]
          \<and> (if fl_less e (min_error st)
             then best_epoch_index st' = i \<and> min_error st' = e
                \<and> best_model_file st' = Some (params st')
             else best_epoch_index st' = best_epoch_index st \<and> min_error st' = min_error st
                \<and> best_model_file st' = best_model_file st
                \<and> count_list (calls st') TorchSave = count_list (calls st) TorchSave)"
proof -
  from assms(2) obtain batches where cb: "create_batches a ds = Inr batches"
    by (cases "create_batches a ds") (simp_all add: train_epoch_def)
  with assms(2) obtain s2 where
    rb: "run_batches c ds batches 0 (st\<lparr>training := True, loss_sum := 0\<rparr>) = Inr s2"
    by (cases "run_batches c ds batches 0 (st\<lparr>training := True, loss_sum := 0\<rparr>)")
       (simp_all add: train_epoch_def)
  with assms cb have v: "validate c ds i s2 = Inr st'"
    by (simp add: train_epoch_def)
  from run_batches_frame[OF rb] have fr:
    "epoch_loss_list s2 = epoch_loss_list st" "min_error s2 = min_error st"
    "best_epoch_index s2 = best_epoch_index st" "best_model_file s2 = best_model_file st"
    "count_list (calls s2) TorchSave = count_list (calls st) TorchSave"
    by simp_all
  from validate_step[OF v] obtain scores where
    vs: "epoch_loss_list st' = epoch_loss_list s2 @ [np_mean scores]"
        "params st' = params s2"
        "if fl_less (np_mean scores) (min_error s2)
             then best_epoch_index st' = i \<and> min_error st' = np_mean scores
                \<and> best_model_file st' = Some (params s2)
             else best_epoch_index st' = best_epoch_index s2 \<and> min_error st' = min_error s2
                \<and> best_model_file st' = best_model_file s2
                \<and> count_list (calls st') TorchSave = count_list (calls s2) TorchSave"
    by blast
  show ?thesis
  proof (intro exI[of _ "np_mean scores"] conjI)
    show "epoch_loss_list st' = epoch_loss_list st @ [np_mean scores]"
      using vs(1) fr(1) by simp
    show "if fl_less (np_mean scores) (min_error st)
             then best_epoch_index st' = i \<and> min_error st' = np_mean scores
                \<and> best_model_file st' = Some (params st')
             else best_epoch_index st' = best_epoch_index st \<and> min_error st' = min_error st
                \<and> best_model_file st' = best_model_file st
                \<and> count_list (calls st') TorchSave = count_list (calls st) TorchSave"
      using vs(2,3) fr by (simp split: if_splits)
  qed
qed

subsection \<open>Runs of epochs\<close>

lemma run_epochs_append:
  "run_epochs c ds a (xs @ ys) st =
     (case run_epochs c ds a xs st of Inl e \<Rightarrow> Inl e | Inr s \<Rightarrow> run_epochs c ds a ys s)"
  by (induction xs arbitrary: st) (simp_all split: sum.splits)

lemma run_epochs_Suc:
  assumes "run_epochs c ds a [0..<Suc n] st = Inr st'"
  shows "\<exists>s. run_epochs c ds a [0..<n] st = Inr s \<and> train_epoch c ds a n s = Inr st'"
proof (cases "run_epochs c ds a [0..<n] st")
  case (Inl e)
  with assms show ?thesis by (simp add: run_epochs_append)
next
  case (Inr s)
  with assms have "train_epoch c ds a n s = Inr st'"
    by (simp add: run_epochs_append split: sum.splits)
  with Inr show ?thesis by simp
qed

lemma run_epochs_history:
  assumes "validate_enabled a" and "run_epochs c ds a idxs st = Inr st'"
  shows "\<exists>es. epoch_loss_list st' = epoch_loss_list st @ es \<and> length es = length idxs"
  using assms(2)
proof (induction idxs arbitrary: st)
  case Nil
  then show ?case by simp
next
  case (Cons i idxs)
  from Cons.prems obtain s where s: "train_epoch c ds a i st = Inr s"
    by (cases "train_epoch c ds a i st") simp_all
  with Cons.prems have r: "run_epochs c ds a idxs s = Inr st'" by simp
  from train_epoch_step[OF assms(1) s] obtain e where
    e: "epoch_loss_list s = epoch_loss_list st @ [e]" by blast
  from Cons.IH[OF r] obtain es where
    "epoch_loss_list st' = epoch_loss_list s @ es" "length es = length idxs" by blast
  then show ?case using e by (intro exI[of _ "e # es"]) simp
qed

lemma train_Inr:
  assumes "train c ds a st0 = Inr st'"
  shows "\<exists>st. run_epochs c ds a [0..<nat (epochs a)] (train_setup c st0) = Inr st
            \<and> load_best a st = Inr st'"
  using assms
  by (cases "run_epochs c ds a [0..<nat (epochs a)] (train_setup c st0)")
     (simp_all add: train_def)

lemma load_best_Inr:
  assumes "validate_enabled a" and "load_best a st = Inr st'"
  shows "\<exists>p. best_model_file st = Some p \<and> st' = st\<lparr>params := p\<rparr>"
  using assms by (cases "best_model_file st") (auto simp: load_best_def)

subsection \<open>The first minimum of a list\<close>

lemma length_takeWhile_less:
  assumes "x \<in> set xs" and "\<not> P x"
  shows "length (takeWhile P xs) < length xs"
proof (rule ccontr)
  assume "\<not> length (takeWhile P xs) < length xs"
  then have "length (takeWhile P xs) = length xs"
    using length_takeWhile_le[of P xs] by simp
  then have "takeWhile P xs = xs"
    using takeWhile_eq_take[of P xs] by simp
  then have "\<forall>y\<in>set xs. P y" by (simp add: takeWhile_eq_all_conv)
  with assms show False by blast
qed

lemma first_argmin_is_argmin:
  assumes "es \<noteq> []"
  shows "first_argmin es < length es \<and> es ! first_argmin es = Min (set es)
       \<and> (\<forall>j<first_argmin es. Min (set es) < es ! j)"
proof -
  let ?P = "\<lambda>e. e \<noteq> Min (set es)"
  have "Min (set es) \<in> set es" using assms by (intro Min_in) simp_all
  then have lt: "length (takeWhile ?P es) < length es"
    by (rule length_takeWhile_less) simp
  have a: "\<not> ?P (es ! length (takeWhile ?P es))" using lt by (rule nth_length_takeWhile)
  have b: "\<forall>j<length (takeWhile ?P es). Min (set es) < es ! j"
  proof (intro allI impI)
    fix j assume j: "j < length (takeWhile ?P es)"
    then have "takeWhile ?P es ! j \<in> set (takeWhile ?P es)" by (rule nth_mem)
    then have "?P (takeWhile ?P es ! j)" by (rule set_takeWhileD[THEN conjunct2])
    then have "?P (es ! j)" using j by (simp add: takeWhile_nth)
    moreover have "Min (set es) \<le> es ! j" using j lt by (intro Min_le) simp_all
    ultimately show "Min (set es) < es ! j" by simp
  qed
  show ?thesis using lt a b by (simp add: first_argmin_def)
qed

lemma min_if_less: "min (a::'a::linorder) b = (if a < b then a else b)"
  by (auto simp: min_def)

lemma Min_snoc:
  assumes "es \<noteq> []"
  shows "Min (set (es @ [e])) = min e (Min (set es))"
proof -
  have "Min (insert e (set es)) = min e (Min (set es))"
    using assms by (intro Min_insert) simp_all
  then show ?thesis by simp
qed

lemma Min_snoc_cases:
  "Min (set (es @ [e])) = (if es = [] \<or> e < Min (set es) then e else Min (set es))"
proof (cases "es = []")
  case True
  then show ?thesis by simp
next
  case False
  have "Min (set (es @ [e])) = (if e < Min (set es) then e else Min (set es))"
    using Min_snoc[OF False, of e] by (simp only: min_if_less)
  then show ?thesis using False by (simp only: simp_thms)
qed

lemma first_argmin_snoc:
  assumes "es \<noteq> []"
  shows "first_argmin (es @ [e]) = (if e < Min (set es) then length es else first_argmin es)"
proof (cases "e < Min (set es)")
  case True
  then have m: "Min (set (es @ [e])) = e"
    using Min_snoc[OF assms, of e] by (simp add: min_def)
  have "\<forall>x\<in>set es. x \<noteq> e"
  proof
    fix x assume "x \<in> set es"
    then have "Min (set es) \<le> x" by (intro Min_le) simp_all
    with True show "x \<noteq> e" by simp
  qed
  then have "takeWhile (\<lambda>x. x \<noteq> e) (es @ [e]) = es" by simp
  then show ?thesis using True m by (simp only: first_argmin_def if_True)
next
  case False
  then have m: "Min (set (es @ [e])) = Min (set es)"
    using Min_snoc[OF assms, of e] by (simp add: min_def)
  have "Min (set es) \<in> set es" using assms by (intro Min_in) simp_all
  then have "takeWhile (\<lambda>x. x \<noteq> Min (set es)) (es @ [e])
               = takeWhile (\<lambda>x. x \<noteq> Min (set es)) es"
    by (intro takeWhile_append1[where x = "Min (set es)"]) simp_all
  then show ?thesis using False m by (simp only: first_argmin_def if_False)
qed

lemma first_argmin_snoc_cases:
  "first_argmin (es @ [e]) =
     (if es = [] \<or> e < Min (set es) then length es else first_argmin es)"
proof (cases "es = []")
  case True
  then show ?thesis by (simp add: first_argmin_def)
next
  case False
  then show ?thesis using first_argmin_snoc[OF False, of e] by simp
qed

lemma below_sentinel_iff:
  "(\<exists>e\<in>set es. e < (s::real)) \<longleftrightarrow> es \<noteq> [] \<and> Min (set es) < s"
proof (cases "es = []")
  case True
  then show ?thesis by simp
next
  case False
  then show ?thesis by (simp add: Min_less_iff)
qed

lemma map_Fin_snoc:
  assumes "map Fin es = xs @ [e]"
  shows "es \<noteq> [] \<and> xs = map Fin (butlast es) \<and> e = Fin (last es)"
proof -
  from assms have ne: "es \<noteq> []" by auto
  then have "map Fin es = map Fin (butlast es) @ [Fin (last es)]"
    by (metis append_butlast_last_id list.simps(8,9) map_append)
  with assms ne show ?thesis by simp
qed

subsection \<open>The best epoch so far\<close>

lemma best_tracking:
  assumes "validate_enabled a"
    and "run_epochs c ds a [0..<n] (train_setup c st0) = Inr st"
    and "epoch_loss_list st = map Fin es"
  shows "length es = n \<and>
    (if \<exists>e\<in>set es. e < 100
     then min_error st = Fin (Min (set es)) \<and> best_epoch_index st = first_argmin es
        \<and> (\<exists>sb. run_epochs c ds a [0..<Suc (first_argmin es)] (train_setup c st0) = Inr sb
                \<and> best_model_file st = Some (params sb))
     else min_error st = Fin 100 \<and> best_epoch_index st = 0
        \<and> best_model_file st = best_model_file st0
        \<and> count_list (calls st) TorchSave = count_list (calls st0) TorchSave)"
  using assms(2,3)
proof (induction n arbitrary: st es)
  case 0
  then show ?case by (auto simp: train_setup_def)
next
  case (Suc n)
  from run_epochs_Suc[OF Suc.prems(1)] obtain sn where
    sn: "run_epochs c ds a [0..<n] (train_setup c st0) = Inr sn"
    and ep: "train_epoch c ds a n sn = Inr st" by blast
  from train_epoch_step[OF assms(1) ep] obtain e where
    app: "epoch_loss_list st = epoch_loss_list sn @ [e]"
    and upd: "if fl_less e (min_error sn)
             then best_epoch_index st = n \<and> min_error st = e
                \<and> best_model_file st = Some (params st)
             else best_epoch_index st = best_epoch_index sn \<and> min_error st = min_error sn
                \<and> best_model_file st = best_model_file sn
                \<and> count_list (calls st) TorchSave = count_list (calls sn) TorchSave"
    by blast
  define es' where "es' = butlast es"
  define r where "r = last es"
  from app Suc.prems(2) have "map Fin es = epoch_loss_list sn @ [e]" by simp
  from map_Fin_snoc[OF this] have
    ne: "es \<noteq> []" and sn_list: "epoch_loss_list sn = map Fin es'" and e: "e = Fin r"
    by (simp_all add: es'_def r_def)
  have es: "es = es' @ [r]" using ne by (simp add: es'_def r_def)
  note IH = Suc.IH[OF sn sn_list]
  have len: "length es' = n" using IH by (rule conjunct1)
  have ih: "if \<exists>e\<in>set es'. e < 100
     then min_error sn = Fin (Min (set es')) \<and> best_epoch_index sn = first_argmin es'
        \<and> (\<exists>sb. run_epochs c ds a [0..<Suc (first_argmin es')] (train_setup c st0) = Inr sb
                \<and> best_model_file sn = Some (params sb))
     else min_error sn = Fin 100 \<and> best_epoch_index sn = 0
        \<and> best_model_file sn = best_model_file st0
        \<and> count_list (calls sn) TorchSave = count_list (calls st0) TorchSave"
    using IH by (rule conjunct2)
  have L: "length es = Suc n" using len es by simp
  show ?case
  proof (cases "\<exists>e\<in>set es'. e < 100")
    case True
    then have ne': "es' \<noteq> []" and m': "Min (set es') < 100"
      by (simp_all add: below_sentinel_iff)
    have ex: "\<exists>e\<in>set es. e < 100" using True es by auto
    from ih True have i1: "min_error sn = Fin (Min (set es'))"
      and i2: "best_epoch_index sn = first_argmin es'"
      and i3: "\<exists>sb. run_epochs c ds a [0..<Suc (first_argmin es')] (train_setup c st0) = Inr sb
                \<and> best_model_file sn = Some (params sb)" by simp_all
    show ?thesis
    proof (cases "r < Min (set es')")
      case better: True
      then have "fl_less e (min_error sn)" using e i1 by simp
      with upd have u: "best_epoch_index st = n" "min_error st = e"
        "best_model_file st = Some (params st)" by simp_all
      have M: "Min (set es) = r"
        using Min_snoc_cases[of es' r] better unfolding es by (simp only: simp_thms if_True)
      have F: "first_argmin es = n"
        using first_argmin_snoc_cases[of es' r] better len unfolding es
        by (simp only: simp_thms if_True)
      have "run_epochs c ds a [0..<Suc (first_argmin es)] (train_setup c st0) = Inr st
            \<and> best_model_file st = Some (params st)"
        using Suc.prems(1) u(3) F by simp
      then show ?thesis using L ex u e M F by auto
    next
      case worse: False
      then have "\<not> fl_less e (min_error sn)" using e i1 by simp
      with upd have u: "best_epoch_index st = best_epoch_index sn" "min_error st = min_error sn"
        "best_model_file st = best_model_file sn" by simp_all
      have M: "Min (set es) = Min (set es')"
        using Min_snoc_cases[of es' r] worse ne' unfolding es by (simp only: simp_thms if_False)
      have F: "first_argmin es = first_argmin es'"
        using first_argmin_snoc_cases[of es' r] worse ne' unfolding es
        by (simp only: simp_thms if_False)
      show ?thesis using L ex u i1 i2 i3 M F by auto
    qed
  next
    case False
    from ih False have i1: "min_error sn = Fin 100" and i2: "best_epoch_index sn = 0"
      and i3: "best_model_file sn = best_model_file st0"
      and i4: "count_list (calls sn) TorchSave = count_list (calls st0) TorchSave" by simp_all
    show ?thesis
    proof (cases "r < 100")
      case better: True
      then have "fl_less e (min_error sn)" using e i1 by simp
      with upd have u: "best_epoch_index st = n" "min_error st = e"
        "best_model_file st = Some (params st)" by simp_all
      have ex: "\<exists>e\<in>set es. e < 100" using better es by auto
      have lt: "es' = [] \<or> r < Min (set es')"
      proof (cases "es' = []")
        case True
        then show ?thesis by simp
      next
        case ne': False
        then have "100 \<le> Min (set es')" using False by (simp add: not_less)
        with better show ?thesis by simp
      qed
      have M: "Min (set es) = r"
        using Min_snoc_cases[of es' r] lt unfolding es by (simp only: simp_thms if_True)
      have F: "first_argmin es = n"
        using first_argmin_snoc_cases[of es' r] lt len unfolding es
        by (simp only: simp_thms if_True)
      have "run_epochs c ds a [0..<Suc (first_argmin es)] (train_setup c st0) = Inr st
            \<and> best_model_file st = Some (params st)"
        using Suc.prems(1) u(3) F by simp
      then show ?thesis using L ex u e M F by auto
    next
      case worse: False
      then have "\<not> fl_less e (min_error sn)" using e i1 by simp
      with upd have u: "best_epoch_index st = best_epoch_index sn" "min_error st = min_error sn"
        "best_model_file st = best_model_file sn"
        "count_list (calls st) TorchSave = count_list (calls sn) TorchSave" by simp_all
      have nex: "\<not> (\<exists>e\<in>set es. e < 100)" using worse False es by auto
      show ?thesis using L nex u i1 i2 i3 i4 by simp
    qed
  qed
qed

subsection \<open>The test loop\<close>

lemma test_loop_counts:
  assumes "0 < test_graphs ds"
    and "\<forall>x\<in>set pairs. model c False (params st) (get_data ds x Test) = Inr (prediction x)"
  shows "\<exists>run'. test_loop c ds st index pairs run = Inr run'
      \<and> length (prec_at_10_list run') + index div test_graphs ds
          = length (prec_at_10_list run) + (index + length pairs) div test_graphs ds
      \<and> length (prec_at_20_list run') + index div test_graphs ds
          = length (prec_at_20_list run) + (index + length pairs) div test_graphs ds"
  using assms(2)
proof (induction pairs arbitrary: index run)
  case Nil
  then show ?case by simp
next
  case (Cons x xs)
  let ?B = "test_graphs ds"
  let ?tgt = "target ds (get_data ds x Test)"
  let ?run2 = "run\<lparr>ground_truth := (ground_truth run)[index := ?tgt],
                   prediction_list := (prediction_list run)[index := prediction x],
                   scores := (scores run)[index := calculate_loss c (prediction x) ?tgt],
                   temp_gt := temp_gt run @ [?tgt],
                   temp_pre := temp_pre run @ [prediction x]\<rparr>"
  let ?run3 = "?run2\<lparr>prec_at_10_list :=
                   prec_at_10_list ?run2 @ [prec_at_ks c (temp_gt ?run2) (temp_pre ?run2) 10],
                 prec_at_20_list :=
                   prec_at_20_list ?run2 @ [prec_at_ks c (temp_gt ?run2) (temp_pre ?run2) 20],
                 temp_gt := [], temp_pre := []\<rparr>"
  have fwd: "model c False (params st) (get_data ds x Test) = Inr (prediction x)"
    using Cons.prems by simp
  have rest: "\<forall>y\<in>set xs. model c False (params st) (get_data ds y Test) = Inr (prediction y)"
    using Cons.prems by simp
  have dv: "Suc index div ?B = (if Suc index mod ?B = 0 then Suc (index div ?B) else index div ?B)"
    by (rule div_Suc)
  show ?case
  proof (cases "Suc index mod ?B = 0")
    case True
    have eq: "test_loop c ds st index (x # xs) run = test_loop c ds st (Suc index) xs ?run3"
      using fwd True assms(1) by (simp add: Let_def)
    from Cons.IH[OF rest, of "Suc index" ?run3] obtain run' where
      r: "test_loop c ds st (Suc index) xs ?run3 = Inr run'"
      "length (prec_at_10_list run') + Suc index div ?B
          = length (prec_at_10_list ?run3) + (Suc index + length xs) div ?B"
      "length (prec_at_20_list run') + Suc index div ?B
          = length (prec_at_20_list ?run3) + (Suc index + length xs) div ?B"
      by blast
    show ?thesis using eq r dv True by (intro exI[of _ run']) simp
  next
    case False
    have eq: "test_loop c ds st index (x # xs) run = test_loop c ds st (Suc index) xs ?run2"
      using fwd False assms(1) by (simp add: Let_def)
    from Cons.IH[OF rest, of "Suc index" ?run2] obtain run' where
      r: "test_loop c ds st (Suc index) xs ?run2 = Inr run'"
      "length (prec_at_10_list run') + Suc index div ?B
          = length (prec_at_10_list ?run2) + (Suc index + length xs) div ?B"
      "length (prec_at_20_list run') + Suc index div ?B
          = length (prec_at_20_list ?run2) + (Suc index + length xs) div ?B"
      by blast
    show ?thesis using eq r dv False by (intro exI[of _ run']) simp
  qed
qed

lemma drop_closed_block:
  assumes "k \<le> length ys"
  shows "drop (length ts + Suc (length ys) - k) (ts @ t # ys) = drop (length ys - k) ys"
proof -
  have "length ts + Suc (length ys) - k = length (ts @ [t]) + (length ys - k)"
    using assms by simp
  then have "drop (length ts + Suc (length ys) - k) ((ts @ [t]) @ ys) = drop (length ys - k) ys"
    by (simp only: drop_append) simp
  then show ?thesis by simp
qed

lemma test_loop_temp:
  assumes "0 < test_graphs ds"
    and "\<forall>x\<in>set pairs. model c False (params st) (get_data ds x Test) = Inr (prediction x)"
    and "test_loop c ds st index pairs run = Inr run'"
    and "length (temp_gt run) = index mod test_graphs ds"
    and "length (temp_pre run) = index mod test_graphs ds"
  shows "temp_gt run' =
           drop (length (temp_gt run) + length pairs - (index + length pairs) mod test_graphs ds)
             (temp_gt run @ map (\<lambda>x. target ds (get_data ds x Test)) pairs)
       \<and> temp_pre run' =
           drop (length (temp_pre run) + length pairs - (index + length pairs) mod test_graphs ds)
             (temp_pre run @ map prediction pairs)"
  using assms(2-5)
proof (induction pairs arbitrary: index run)
  case Nil
  then show ?case by simp
next
  case (Cons x xs)
  let ?B = "test_graphs ds"
  let ?tgt = "target ds (get_data ds x Test)"
  let ?run2 = "run\<lparr>ground_truth := (ground_truth run)[index := ?tgt],
                   prediction_list := (prediction_list run)[index := prediction x],
                   scores := (scores run)[index := calculate_loss c (prediction x) ?tgt],
                   temp_gt := temp_gt run @ [?tgt],
                   temp_pre := temp_pre run @ [prediction x]\<rparr>"
  let ?run3 = "?run2\<lparr>prec_at_10_list :=
                   prec_at_10_list ?run2 @ [prec_at_ks c (temp_gt ?run2) (temp_pre ?run2) 10],
                 prec_at_20_list :=
                   prec_at_20_list ?run2 @ [prec_at_ks c (temp_gt ?run2) (temp_pre ?run2) 20],
                 temp_gt := [], temp_pre := []\<rparr>"
  have fwd: "model c False (params st) (get_data ds x Test) = Inr (prediction x)"
    using Cons.prems(1) by simp
  have rest: "\<forall>y\<in>set xs. model c False (params st) (get_data ds y Test) = Inr (prediction y)"
    using Cons.prems(1) by simp
  have ms: "Suc index mod ?B = (if Suc (index mod ?B) = ?B then 0 else Suc (index mod ?B))"
    by (rule mod_Suc)
  show ?case
  proof (cases "Suc index mod ?B = 0")
    case True
    have eq: "test_loop c ds st index (x # xs) run = test_loop c ds st (Suc index) xs ?run3"
      using fwd True assms(1) by (simp add: Let_def)
    with Cons.prems(2) have r: "test_loop c ds st (Suc index) xs ?run3 = Inr run'" by simp
    have l3: "length (temp_gt ?run3) = Suc index mod ?B" "length (temp_pre ?run3) = Suc index mod ?B"
      using True by simp_all
    note ih = Cons.IH[OF rest r l3]
    have m: "(Suc index + length xs) mod ?B = length xs mod ?B"
      using True by (metis add_0 mod_add_left_eq)
    have le: "length xs mod ?B \<le> length xs" by (rule mod_less_eq_dividend)
    have g: "temp_gt run' = drop (length xs - length xs mod ?B)
                              (map (\<lambda>x. target ds (get_data ds x Test)) xs)"
      and p: "temp_pre run' = drop (length xs - length xs mod ?B) (map prediction xs)"
      using ih m by simp_all
    have dg: "drop (length (temp_gt run) + Suc (length (map (\<lambda>x. target ds (get_data ds x Test)) xs))
                    - length xs mod ?B)
                (temp_gt run @ ?tgt # map (\<lambda>x. target ds (get_data ds x Test)) xs)
              = drop (length (map (\<lambda>x. target ds (get_data ds x Test)) xs) - length xs mod ?B)
                  (map (\<lambda>x. target ds (get_data ds x Test)) xs)"
      using le by (intro drop_closed_block) simp
    have dp: "drop (length (temp_pre run) + Suc (length (map prediction xs)) - length xs mod ?B)
                (temp_pre run @ prediction x # map prediction xs)
              = drop (length (map prediction xs) - length xs mod ?B) (map prediction xs)"
      using le by (intro drop_closed_block) simp
    show ?thesis using g p m dg dp by simp
  next
    case False
    have eq: "test_loop c ds st index (x # xs) run = test_loop c ds st (Suc index) xs ?run2"
      using fwd False assms(1) by (simp add: Let_def)
    with Cons.prems(2) have r: "test_loop c ds st (Suc index) xs ?run2 = Inr run'" by simp
    have sm: "Suc index mod ?B = Suc (index mod ?B)" using ms False by (simp split: if_splits)
    have l2: "length (temp_gt ?run2) = Suc index mod ?B" "length (temp_pre ?run2) = Suc index mod ?B"
      using sm Cons.prems(3,4) by simp_all
    note ih = Cons.IH[OF rest r l2]
    show ?thesis using ih by simp
  qed
qed

subsection \<open>The small instance, evaluated\<close>

lemma demo_epochs: "[0..<nat (epochs demo_args)] = [0, 1, 2]"
  by (simp add: demo_args_def upt_rec)

lemma demo_run_scale_8:
  "run_epochs (demo_collaborators 8) demo_dataset demo_args [0, 1, 2]
     (train_setup (demo_collaborators 8) demo_trainer) =
   Inr \<lparr>params = 3, training = False, optimizer = Some (), min_error = Fin 2,
     best_model = None, best_epoch_index = 1, epoch_loss_list = [Fin 4, Fin 2, Fin 3],
     loss_sum = 1 / 16, best_model_file = Some 2,
     calls = [ZeroGrad, Backward, Step, TorchSave, ZeroGrad, Backward, Step,
              TorchSave, ZeroGrad, Backward, Step]\<rparr>"
  by (simp add: demo_args_def demo_dataset_def demo_collaborators_def demo_trainer_def
      train_setup_def train_epoch_def create_batches_def process_batch_def validate_def
      np_mean_def mse_loss_def demo_forward_def Let_def power2_eq_square)

lemma demo_run_scale_1000:
  "run_epochs (demo_collaborators 1000) demo_dataset demo_args [0, 1, 2]
     (train_setup (demo_collaborators 1000) demo_trainer) =
   Inr \<lparr>params = 3, training = False, optimizer = Some (), min_error = Fin 100,
     best_model = None, best_epoch_index = 0,
     epoch_loss_list = [Fin 500, Fin 250, Fin 375],
     loss_sum = 1 / 16, best_model_file = None,
     calls = [ZeroGrad, Backward, Step, ZeroGrad, Backward, Step, ZeroGrad, Backward,
              Step]\<rparr>"
  by (simp add: demo_args_def demo_dataset_def demo_collaborators_def demo_trainer_def
      train_setup_def train_epoch_def create_batches_def process_batch_def validate_def
      np_mean_def mse_loss_def demo_forward_def Let_def power2_eq_square)

lemma first_argmin_demo: "first_argmin [4, 2, 3] = 1" "first_argmin [500, 250, 375] = 1"
  by (simp_all add: first_argmin_def)

lemma demo_run_stale:
  "run_epochs (demo_collaborators 1000) demo_dataset demo_args [0, 1, 2]
     (train_setup (demo_collaborators 1000) (demo_trainer\<lparr>best_model_file := Some 7\<rparr>)) =
   Inr \<lparr>params = 3, training = False, optimizer = Some (), min_error = Fin 100,
     best_model = None, best_epoch_index = 0,
     epoch_loss_list = [Fin 500, Fin 250, Fin 375],
     loss_sum = 1 / 16, best_model_file = Some 7,
     calls = [ZeroGrad, Backward, Step, ZeroGrad, Backward, Step, ZeroGrad, Backward,
              Step]\<rparr>"
  by (simp add: demo_args_def demo_dataset_def demo_collaborators_def demo_trainer_def
      train_setup_def train_epoch_def create_batches_def process_batch_def validate_def
      np_mean_def mse_loss_def demo_forward_def Let_def power2_eq_square)

lemma demo_epoch_params:
  "map_sum id params
     (run_epochs (demo_collaborators 1000) demo_dataset demo_args [0]
        (train_setup (demo_collaborators 1000) (demo_trainer\<lparr>best_model_file := Some 7\<rparr>)))
     = Inr 1"
  "map_sum id params
     (run_epochs (demo_collaborators 1000) demo_dataset demo_args [0, 1]
        (train_setup (demo_collaborators 1000) (demo_trainer\<lparr>best_model_file := Some 7\<rparr>)))
     = Inr 2"
  by (simp_all add: demo_args_def demo_dataset_def demo_collaborators_def demo_trainer_def
      train_setup_def train_epoch_def create_batches_def process_batch_def validate_def
      np_mean_def mse_loss_def demo_forward_def Let_def power2_eq_square)


lemma demo_train:
  "train (demo_collaborators 8) demo_dataset demo_args demo_trainer = Inr demo_trained"
  unfolding train_def demo_epochs demo_run_scale_8
  by (simp add: load_best_def demo_args_def demo_trained_def)

lemma test_before_train:
  "test (demo_collaborators 8) demo_dataset demo_args demo_trainer = Inl AttributeError"
  by (simp add: test_def print_evaluation_def demo_dataset_def demo_collaborators_def
      demo_trainer_def demo_args_def demo_forward_def Let_def)

subsection \<open>Runs in which some epoch is below the initial minimum\<close>

text \<open>
  Where some validation error of a run is finite and below 100, \<open>validate\<close> tracks
  the best epoch as intended: \<open>best_epoch_index\<close> is the first position of the
  minimum, and the file holds the parameters of that epoch.
\<close>

lemma best_checkpoint_below_sentinel:
  assumes "validate_enabled a" and "train c ds a st0 = Inr st'"
    and "epoch_loss_list st' = map Fin es" and "\<exists>e\<in>set es. e < 100"
  shows "length es = nat (epochs a)
       \<and> best_epoch_index st' = first_argmin es
       \<and> first_argmin es < length es
       \<and> es ! first_argmin es = Min (set es)
       \<and> (\<forall>j<first_argmin es. Min (set es) < es ! j)
       \<and> min_error st' = Fin (Min (set es))
       \<and> (\<exists>sb. run_epochs c ds a [0..<Suc (first_argmin es)] (train_setup c st0) = Inr sb
               \<and> best_model_file st' = Some (params sb))"
proof -
  from train_Inr[OF assms(2)] obtain st where
    run: "run_epochs c ds a [0..<nat (epochs a)] (train_setup c st0) = Inr st"
    and load: "load_best a st = Inr st'" by blast
  from load_best_Inr[OF assms(1) load] obtain p where
    st': "st' = st\<lparr>params := p\<rparr>" by blast
  have hist: "epoch_loss_list st = map Fin es" using assms(3) st' by simp
  note bt = best_tracking[OF assms(1) run hist]
  have len: "length es = nat (epochs a)" using bt by (rule conjunct1)
  have best: "min_error st = Fin (Min (set es)) \<and> best_epoch_index st = first_argmin es
        \<and> (\<exists>sb. run_epochs c ds a [0..<Suc (first_argmin es)] (train_setup c st0) = Inr sb
                \<and> best_model_file st = Some (params sb))"
    using bt[THEN conjunct2] assms(4) by (simp only: if_True)
  have ne: "es \<noteq> []" using assms(4) by auto
  note am = first_argmin_is_argmin[OF ne]
  show ?thesis using len best am unfolding st' by simp
qed

lemma train_reloads_checkpoint_file:
  assumes "validate_enabled a" and "train c ds a st0 = Inr st'"
  shows "best_model_file st' = Some (params st')
       \<and> (\<forall>es. epoch_loss_list st' = map Fin es \<and> (\<exists>e\<in>set es. e < 100) \<longrightarrow>
             (\<exists>sb. run_epochs c ds a [0..<Suc (first_argmin es)] (train_setup c st0) = Inr sb
                  \<and> params st' = params sb))"
proof -
  from train_Inr[OF assms(2)] obtain st where
    run: "run_epochs c ds a [0..<nat (epochs a)] (train_setup c st0) = Inr st"
    and load: "load_best a st = Inr st'" by blast
  from load_best_Inr[OF assms(1) load] obtain p where
    saved: "best_model_file st = Some p" and st': "st' = st\<lparr>params := p\<rparr>" by blast
  have first: "best_model_file st' = Some (params st')" using saved st' by simp
  have second: "\<exists>sb. run_epochs c ds a [0..<Suc (first_argmin es)] (train_setup c st0) = Inr sb
                  \<and> params st' = params sb"
    if h: "epoch_loss_list st' = map Fin es" and b: "\<exists>e\<in>set es. e < 100" for es
  proof -
    have hist: "epoch_loss_list st = map Fin es" using h st' by simp
    have "\<exists>sb. run_epochs c ds a [0..<Suc (first_argmin es)] (train_setup c st0) = Inr sb
                \<and> best_model_file st = Some (params sb)"
      using best_tracking[OF assms(1) run hist, THEN conjunct2] b by (simp only: if_True)
    then obtain sb where
      "run_epochs c ds a [0..<Suc (first_argmin es)] (train_setup c st0) = Inr sb"
      "best_model_file st = Some (params sb)" by blast
    with saved st' show ?thesis by (intro exI[of _ sb]) simp
  qed
  from first second show ?thesis by blast
qed

subsection \<open>Histograms of graphs without nodes\<close>

lemma view_column_empty:
  assumes "nrows m = 0 \<or> ncols m = 0"
  shows "view_column m = []"
  using assms length_view_column[of m] by auto

lemma histc_empty:
  assumes "0 < b"
  shows "histc [] b = Inr (replicate (nat b) 0)"
  using assms by (simp add: histc_def map_replicate_const)

lemma calculate_histogram_zero_nodes:
  assumes "0 < bins a" and "ncols f1 = nrows f2" and "nrows f1 = 0 \<or> ncols f2 = 0"
  shows "calculate_histogram a f1 f2 = Inr (replicate (nat (bins a)) NaN)"
proof -
  obtain m where m: "mm f1 f2 = Inr m" "nrows m = nrows f1" "ncols m = ncols f2"
    using assms(2) by (simp add: mm_def)
  have e: "view_column m = []" using assms(3) m by (intro view_column_empty) simp
  show ?thesis
    using m(1) e histc_empty[OF assms(1)]
    by (simp add: calculate_histogram_def true_divide_def sum_list_replicate)
qed

section \<open>The claims\<close>

text \<open>
  C1. The claim gives the feature width as \<open>2 * tensor_neurons\<close> only when the tensor
  network is enabled, and as 8 for the histogram alone with 8 bins. The code adds
  \<open>2 * tensor_neurons\<close> whatever the flag says: with the histogram enabled (8 bins),
  the tensor network and the node-graph matching disabled and 16 tensor neurons,
  \<open>feature_count\<close> is 40, while \<open>forward\<close>, which does read the flag, builds a
  vector of width 8 that the first fully-connected layer then rejects.
\<close>

theorem feature_count_ignores_tensor_network_flag:
  "calculate_bottleneck_features
     \<lparr>tensor_neurons = 16, histogram = True, bins = 8, node_graph_matching = False,
      hidden_size = 16, tensor_network = False, batch_size = 4, epochs = 1,
      validate_enabled = True\<rparr> = 40
   \<and> fused_width
     \<lparr>tensor_neurons = 16, histogram = True, bins = 8, node_graph_matching = False,
      hidden_size = 16, tensor_network = False, batch_size = 4, epochs = 1,
      validate_enabled = True\<rparr> = Inr 8
   \<and> forward_width
     \<lparr>tensor_neurons = 16, histogram = True, bins = 8, node_graph_matching = False,
      hidden_size = 16, tensor_network = False, batch_size = 4, epochs = 1,
      validate_enabled = True\<rparr> = Inl RuntimeError"
  by (simp add: calculate_bottleneck_features_def fused_width_def forward_width_def
      hist_width_def)



text \<open>
  C3. The claim asks for the checkpoint and \<open>best_epoch_index\<close> of the epoch with the
  least validation error. \<open>validate\<close> tracks that epoch by comparing with
  \<open>min_error\<close>, but \<open>train\<close> starts \<open>min_error\<close> at 100: in a run with the
  validation errors 500, 250, 375 the least error is at position 1, yet
  \<open>best_epoch_index\<close> is 0, no checkpoint is written, and the load at the end of
  \<open>train\<close> finds no file.
\<close>

theorem best_epoch_missed_at_sentinel:
  "map_sum id (\<lambda>st. (epoch_loss_list st, best_epoch_index st, best_model_file st))
     (run_epochs (demo_collaborators 1000) demo_dataset demo_args [0..<nat (epochs demo_args)]
        (train_setup (demo_collaborators 1000) demo_trainer))
     = Inr ([Fin 500, Fin 250, Fin 375], 0, None)
   \<and> first_argmin [500, 250, 375] = 1
   \<and> train (demo_collaborators 1000) demo_dataset demo_args demo_trainer
       = Inl FileNotFoundError"
  unfolding train_def demo_epochs demo_run_scale_1000
  by (simp add: load_best_def first_argmin_demo demo_args_def)

text \<open>
  C4. The claim has the trainer end with the best model of the run. With the validation
  errors 500, 250, 375 and a file left at \<open>best_model_path\<close> by an earlier run
  (holding the parameters 7), no epoch writes the file, and \<open>train\<close> returns with the
  live parameters 7, which are those of no epoch of the run (1, 2 and 3).
\<close>

theorem train_returns_stale_checkpoint:
  "train (demo_collaborators 1000) demo_dataset demo_args
     (demo_trainer\<lparr>best_model_file := Some 7\<rparr>)
     = Inr \<lparr>params = 7, training = False, optimizer = Some (), min_error = Fin 100,
            best_model = None, best_epoch_index = 0,
            epoch_loss_list = [Fin 500, Fin 250, Fin 375],
            loss_sum = 1 / 16, best_model_file = Some 7,
            calls = [ZeroGrad, Backward, Step, ZeroGrad, Backward, Step, ZeroGrad, Backward,
                     Step]\<rparr>
   \<and> map_sum id params
       (run_epochs (demo_collaborators 1000) demo_dataset demo_args [0]
          (train_setup (demo_collaborators 1000) (demo_trainer\<lparr>best_model_file := Some 7\<rparr>)))
       = Inr 1
   \<and> map_sum id params
       (run_epochs (demo_collaborators 1000) demo_dataset demo_args [0, 1]
          (train_setup (demo_collaborators 1000) (demo_trainer\<lparr>best_model_file := Some 7\<rparr>)))
       = Inr 2
   \<and> map_sum id params
       (run_epochs (demo_collaborators 1000) demo_dataset demo_args [0, 1, 2]
          (train_setup (demo_collaborators 1000) (demo_trainer\<lparr>best_model_file := Some 7\<rparr>)))
       = Inr 3"
  unfolding train_def demo_epochs demo_run_stale demo_epoch_params
  by (simp add: load_best_def demo_args_def)

text \<open>
  C5 (as amended). With a positive number of bins and matching embedding widths: the
  histogram of two graphs that both have at least one node consists of \<open>bins\<close> finite
  values that sum to 1; where either graph has zero nodes, the counts are all zero, the
  code divides them by their zero sum, and every one of the \<open>bins\<close> entries is
  \<open>0 / 0\<close> (\<open>NaN\<close>).
\<close>

theorem calculate_histogram_sums_to_one:
  assumes "0 < bins a" and "ncols f1 = nrows f2"
  shows "(0 < nrows f1 \<and> 0 < ncols f2 \<longrightarrow>
            (\<exists>vs. calculate_histogram a f1 f2 = Inr (map Fin vs)
                 \<and> length vs = nat (bins a) \<and> sum_list vs = 1))
       \<and> (nrows f1 = 0 \<or> ncols f2 = 0 \<longrightarrow>
            calculate_histogram a f1 f2 = Inr (replicate (nat (bins a)) NaN))"
proof (intro conjI impI)
  assume nodes: "0 < nrows f1 \<and> 0 < ncols f2"
  obtain m where m: "mm f1 f2 = Inr m" "nrows m = nrows f1" "ncols m = ncols f2"
    using assms(2) by (simp add: mm_def)
  have ne: "view_column m \<noteq> []"
    using length_view_column[of m] m nodes by auto
  from histc_counts_all[OF assms(1) ne] obtain h where
    h: "histc (view_column m) (bins a) = Inr h" "length h = nat (bins a)"
       "sum_list h = real (length (view_column m))" by blast
  have pos: "sum_list h \<noteq> 0" using h(3) ne by simp
  have "calculate_histogram a f1 f2 = Inr (map Fin (map (\<lambda>x. x / sum_list h) h))"
    using m h pos by (simp add: calculate_histogram_def true_divide_def comp_def)
  then show "\<exists>vs. calculate_histogram a f1 f2 = Inr (map Fin vs)
                 \<and> length vs = nat (bins a) \<and> sum_list vs = 1"
    using h(2) sum_list_normalised[OF pos] by (intro exI conjI) simp_all
next
  assume "nrows f1 = 0 \<or> ncols f2 = 0"
  with assms show "calculate_histogram a f1 f2 = Inr (replicate (nat (bins a)) NaN)"
    by (rule calculate_histogram_zero_nodes)
qed

theorem calculate_histogram_sums_to_one_witness:
  "0 < bins demo_args \<and> ncols (full 3 2 1) = nrows (full 2 4 1)
   \<and> 0 < nrows (full 3 2 1) \<and> 0 < ncols (full 2 4 1)
   \<and> (\<exists>vs. calculate_histogram demo_args (full 3 2 1) (full 2 4 1) = Inr (map Fin vs)
           \<and> length vs = 8 \<and> sum_list vs = 1)
   \<and> ncols (full 0 2 1) = nrows (full 2 4 1) \<and> nrows (full 0 2 1) = 0
   \<and> calculate_histogram demo_args (full 0 2 1) (full 2 4 1) = Inr (replicate 8 NaN)"
proof -
  have b: "0 < bins demo_args" by (simp add: demo_args_def)
  have s: "ncols (full 3 2 1) = nrows (full 2 4 1)" by (simp add: full_def)
  have n: "0 < nrows (full 3 2 1) \<and> 0 < ncols (full 2 4 1)" by (simp add: full_def)
  have s0: "ncols (full 0 2 1) = nrows (full 2 4 1)" by (simp add: full_def)
  have z: "nrows (full 0 2 1) = 0 \<or> ncols (full 2 4 1) = 0" by (simp add: full_def)
  have one: "\<exists>vs. calculate_histogram demo_args (full 3 2 1) (full 2 4 1) = Inr (map Fin vs)
           \<and> length vs = nat (bins demo_args) \<and> sum_list vs = 1"
    using calculate_histogram_sums_to_one[OF b s, THEN conjunct1] n by (rule mp)
  have nan: "calculate_histogram demo_args (full 0 2 1) (full 2 4 1)
               = Inr (replicate (nat (bins demo_args)) NaN)"
    using calculate_histogram_sums_to_one[OF b s0, THEN conjunct2] z by (rule mp)
  from one nan b s n s0 show ?thesis by (simp add: demo_args_def full_def)
qed

text \<open>
  C5 as stated fails for a graph with zero nodes: every entry of the histogram is
  \<open>0 / 0\<close>, not 0.
\<close>

theorem calculate_histogram_zero_nodes_counterexample:
  "calculate_histogram demo_args (full 0 2 1) (full 2 4 1) = Inr (replicate 8 NaN)
   \<and> calculate_histogram demo_args (full 3 2 1) (full 2 0 1) = Inr (replicate 8 NaN)
   \<and> replicate 8 NaN \<noteq> replicate 8 (Fin 0)"
  by (simp add: calculate_histogram_def mm_def histc_def view_column_def full_def
      true_divide_def bin_of_def demo_args_def map_replicate_const sum_list_replicate)

text \<open>
  C6 (as amended). With at least one test graph (\<open>B > 0\<close>), a forward pass that
  succeeds on every test pair, and \<open>train\<close> called before when validation is enabled,
  \<open>test\<close> returns, whether or not \<open>B\<close> divides the number of test pairs. It has
  then computed exactly \<open>total_test_pairs div B\<close> (rounded down) precision-at-10
  values and as many precision-at-20 values, and the targets and predictions of the
  trailing \<open>total_test_pairs mod B\<close> pairs are what is left in \<open>temp_gt\<close> and
  \<open>temp_pre\<close>.
\<close>

theorem test_precision_counts:
  assumes "0 < test_graphs ds"
    and "\<forall>x\<in>set (test_graph_index_pairs ds).
           model c False (params st) (get_data ds x Test) = Inr (prediction x)"
    and "validate_enabled a \<longrightarrow> optimizer st \<noteq> None"
  shows "\<exists>run ev printed. test c ds a st = Inr (run, ev, printed)
      \<and> length (prec_at_10_list run) = length (test_graph_index_pairs ds) div test_graphs ds
      \<and> length (prec_at_20_list run) = length (test_graph_index_pairs ds) div test_graphs ds
      \<and> temp_gt run =
          map (\<lambda>x. target ds (get_data ds x Test))
            (drop (length (test_graph_index_pairs ds)
                     - length (test_graph_index_pairs ds) mod test_graphs ds)
               (test_graph_index_pairs ds))
      \<and> temp_pre run =
          map prediction
            (drop (length (test_graph_index_pairs ds)
                     - length (test_graph_index_pairs ds) mod test_graphs ds)
               (test_graph_index_pairs ds))"
proof -
  let ?pairs = "test_graph_index_pairs ds"
  let ?n = "length ?pairs"
  let ?run0 = "\<lparr>scores = replicate ?n 0, ground_truth = replicate ?n 0,
                  prediction_list = replicate ?n 0, prec_at_10_list = [], prec_at_20_list = [],
                  temp_gt = [], temp_pre = []\<rparr>"
  from test_loop_counts[OF assms(1,2), of 0 ?run0] obtain run' where
    r: "test_loop c ds st 0 ?pairs ?run0 = Inr run'"
       "length (prec_at_10_list run') = ?n div test_graphs ds"
       "length (prec_at_20_list run') = ?n div test_graphs ds"
    by auto
  have "temp_gt run' =
           drop (length (temp_gt ?run0) + ?n - (0 + ?n) mod test_graphs ds)
             (temp_gt ?run0 @ map (\<lambda>x. target ds (get_data ds x Test)) ?pairs)
       \<and> temp_pre run' =
           drop (length (temp_pre ?run0) + ?n - (0 + ?n) mod test_graphs ds)
             (temp_pre ?run0 @ map prediction ?pairs)"
    using assms(1,2) r(1) by (rule test_loop_temp) simp_all
  then have t: "temp_gt run' =
        map (\<lambda>x. target ds (get_data ds x Test)) (drop (?n - ?n mod test_graphs ds) ?pairs)"
      "temp_pre run' = map prediction (drop (?n - ?n mod test_graphs ds) ?pairs)"
    by (simp_all add: drop_map)
  have "\<exists>printed. print_evaluation a st = Inr printed"
    using assms(3) by (cases "optimizer st") (auto simp: print_evaluation_def)
  then obtain printed where p: "print_evaluation a st = Inr printed" by blast
  show ?thesis using r t p by (simp add: test_def Let_def)
qed

theorem test_precision_counts_witness:
  "0 < test_graphs demo_dataset
   \<and> train (demo_collaborators 8) demo_dataset demo_args demo_trainer = Inr demo_trained
   \<and> optimizer demo_trained \<noteq> None
   \<and> (\<exists>run ev printed.
         test (demo_collaborators 8) demo_dataset demo_args demo_trained = Inr (run, ev, printed)
       \<and> length (prec_at_10_list run) = 1 \<and> length (prec_at_20_list run) = 1
       \<and> temp_gt run = [1] \<and> temp_pre run = [3 / 4])"
proof -
  have b: "0 < test_graphs demo_dataset" by (simp add: demo_dataset_def)
  have f: "\<forall>x\<in>set (test_graph_index_pairs demo_dataset).
      model (demo_collaborators 8) False (params demo_trained) (get_data demo_dataset x Test)
        = Inr ((\<lambda>x. 3 / 4) x)"
    by (simp add: demo_collaborators_def demo_forward_def demo_trained_def)
  have o: "optimizer demo_trained \<noteq> None" by (simp add: demo_trained_def)
  then have v: "validate_enabled demo_args \<longrightarrow> optimizer demo_trained \<noteq> None" by simp
  from test_precision_counts[OF b f v] b o demo_train show ?thesis
    by (simp add: demo_dataset_def)
qed

text \<open>
  C6 as stated fails where the number of test pairs is not a multiple of \<open>B\<close>: with
  three test pairs and two test graphs \<open>test\<close>, called after \<open>train\<close>, does not
  fail; it reports the mean over the one complete block and leaves the third pair in the
  temporary lists.
\<close>

theorem test_not_divisible_counterexample:
  "length (test_graph_index_pairs demo_dataset) mod test_graphs demo_dataset \<noteq> 0
   \<and> train (demo_collaborators 8) demo_dataset demo_args demo_trainer = Inr demo_trained
   \<and> test (demo_collaborators 8) demo_dataset demo_args demo_trained =
       Inr (\<lparr>scores = [2, 2, 2], ground_truth = [1, 1, 1],
             prediction_list = [3 / 4, 3 / 4, 3 / 4], prec_at_10_list = [1],
             prec_at_20_list = [1], temp_gt = [1], temp_pre = [3 / 4]\<rparr>,
            \<lparr>mse = Fin 2, rho = 1, tau = 1, p_at_20 = Fin 1, p_at_10 = Fin 1\<rparr>,
            Some ([Fin 4, Fin 2, Fin 3], 1, Fin 2))"
  unfolding demo_train
  by (simp add: test_def print_evaluation_def demo_trained_def demo_dataset_def
      demo_collaborators_def demo_args_def demo_forward_def np_mean_def Let_def)

text \<open>
  C8. With validation enabled, every epoch appends exactly one entry to
  \<open>epoch_loss_list\<close> and leaves the earlier entries as they are: a run of epochs
  extends the list by as many entries as it has epochs; the entry that \<open>validate\<close>
  appends is the mean validation score, whether or not it is a new best; and after
  \<open>train\<close> the list has one entry per epoch.
\<close>

theorem epoch_loss_list_append_only:
  assumes "validate_enabled a" and "run_epochs c ds a idxs st = Inr st'"
  shows "(\<exists>es. epoch_loss_list st' = epoch_loss_list st @ es \<and> length es = length idxs)
       \<and> (\<forall>i s s'. validate c ds i s = Inr s' \<longrightarrow>
             (\<exists>scores. validation_scores c ds (s\<lparr>training := False\<rparr>)
                          (validation_graph_index_pairs ds) = Inr scores
                      \<and> epoch_loss_list s' = epoch_loss_list s @ [np_mean scores]))
       \<and> (\<forall>s0 s1. train c ds a s0 = Inr s1 \<longrightarrow>
             length (epoch_loss_list s1) = nat (epochs a))"
proof (intro conjI allI impI)
  show "\<exists>es. epoch_loss_list st' = epoch_loss_list st @ es \<and> length es = length idxs"
    using assms by (rule run_epochs_history)
next
  fix i s s' assume "validate c ds i s = Inr s'"
  from validate_step[OF this]
  show "\<exists>scores. validation_scores c ds (s\<lparr>training := False\<rparr>)
                   (validation_graph_index_pairs ds) = Inr scores
               \<and> epoch_loss_list s' = epoch_loss_list s @ [np_mean scores]"
    by blast
next
  fix s0 s1 assume "train c ds a s0 = Inr s1"
  from train_Inr[OF this] obtain s where
    run: "run_epochs c ds a [0..<nat (epochs a)] (train_setup c s0) = Inr s"
    and load: "load_best a s = Inr s1" by blast
  from load_best_Inr[OF assms(1) load] obtain p where s1: "s1 = s\<lparr>params := p\<rparr>" by blast
  from run_epochs_history[OF assms(1) run] obtain es where
    "epoch_loss_list s = epoch_loss_list (train_setup c s0) @ es"
    "length es = length [0..<nat (epochs a)]" by blast
  then show "length (epoch_loss_list s1) = nat (epochs a)"
    using s1 by (simp add: train_setup_def)
qed

theorem epoch_loss_list_append_only_witness:
  "validate_enabled demo_args
   \<and> (\<exists>st'. run_epochs (demo_collaborators 8) demo_dataset demo_args [0, 1, 2]
               (train_setup (demo_collaborators 8) demo_trainer) = Inr st'
           \<and> (\<exists>es. epoch_loss_list st'
                     = epoch_loss_list (train_setup (demo_collaborators 8) demo_trainer) @ es
                   \<and> length es = length [0, 1, 2 :: nat])
           \<and> epoch_loss_list st' = [Fin 4, Fin 2, Fin 3])"
proof -
  let ?S = "\<lparr>params = 3, training = False, optimizer = Some (), min_error = Fin 2,
     best_model = None, best_epoch_index = 1, epoch_loss_list = [Fin 4, Fin 2, Fin 3],
     loss_sum = 1 / 16, best_model_file = Some (2::nat),
     calls = [ZeroGrad, Backward, Step, TorchSave, ZeroGrad, Backward, Step,
              TorchSave, ZeroGrad, Backward, Step]\<rparr>"
  have v: "validate_enabled demo_args" by (simp add: demo_args_def)
  note r = demo_run_scale_8
  from epoch_loss_list_append_only[OF v r, THEN conjunct1]
  have a: "\<exists>es. epoch_loss_list ?S
                     = epoch_loss_list (train_setup (demo_collaborators 8) demo_trainer) @ es
                   \<and> length es = length [0, 1, 2 :: nat]" .
  have l: "epoch_loss_list ?S = [Fin 4, Fin 2, Fin 3]" by simp
  have "\<exists>st'. run_epochs (demo_collaborators 8) demo_dataset demo_args [0, 1, 2]
               (train_setup (demo_collaborators 8) demo_trainer) = Inr st'
           \<and> (\<exists>es. epoch_loss_list st'
                     = epoch_loss_list (train_setup (demo_collaborators 8) demo_trainer) @ es
                   \<and> length es = length [0, 1, 2 :: nat])
           \<and> epoch_loss_list st' = [Fin 4, Fin 2, Fin 3]"
    using r a l by (intro exI[of _ ?S]) blast
  with v show ?thesis by (rule conjI)
qed

text \<open>
  C9 (as amended). With the tensor network disabled, the histogram enabled and a positive
  number of tensor neurons, every fused feature vector that \<open>forward\<close> builds is
  strictly narrower than \<open>feature_count\<close>: its width is \<open>bins\<close>, plus
  \<open>4 * hidden_size\<close> when node-graph matching is enabled, and \<open>feature_count\<close>
  is \<open>2 * tensor_neurons\<close> more. Such a vector is built whenever \<open>bins\<close> is
  positive, and no forward pass gets through the first fully-connected layer.
\<close>

theorem fused_width_below_feature_count:
  assumes "\<not> tensor_network a" and "histogram a" and "0 < tensor_neurons a"
  shows "(\<forall>w. fused_width a = Inr w \<longrightarrow>
            w = bins a + (if node_graph_matching a then 4 * hidden_size a else 0)
            \<and> calculate_bottleneck_features a = w + 2 * tensor_neurons a
            \<and> w < calculate_bottleneck_features a)
         \<and> (0 < bins a \<longrightarrow> (\<exists>w. fused_width a = Inr w))
         \<and> (\<forall>w. forward_width a \<noteq> Inr w)"
  using assms
  by (auto simp: fused_width_def forward_width_def hist_width_def node_graph_score_width_def
      calculate_bottleneck_features_def Let_def split: sum.splits if_splits)

theorem fused_width_below_feature_count_witness:
  "\<not> tensor_network (demo_args\<lparr>tensor_network := False, node_graph_matching := True\<rparr>)
   \<and> histogram (demo_args\<lparr>tensor_network := False, node_graph_matching := True\<rparr>)
   \<and> 0 < tensor_neurons (demo_args\<lparr>tensor_network := False, node_graph_matching := True\<rparr>)
   \<and> fused_width (demo_args\<lparr>tensor_network := False, node_graph_matching := True\<rparr>) = Inr 72
   \<and> calculate_bottleneck_features
       (demo_args\<lparr>tensor_network := False, node_graph_matching := True\<rparr>) = 104
   \<and> forward_width (demo_args\<lparr>tensor_network := False, node_graph_matching := True\<rparr>)
       = Inl RuntimeError"
  using fused_width_below_feature_count
    [of "demo_args\<lparr>tensor_network := False, node_graph_matching := True\<rparr>"]
  by (simp add: demo_args_def fused_width_def forward_width_def hist_width_def
      node_graph_score_width_def calculate_bottleneck_features_def)

text \<open>
  C9 as stated fails where \<open>tensor_neurons = 0\<close>: the two widths coincide and the
  first fully-connected layer accepts the fused vector.
\<close>

theorem fused_width_not_below_counterexample:
  "\<not> tensor_network (demo_args\<lparr>tensor_network := False, tensor_neurons := 0\<rparr>)
   \<and> histogram (demo_args\<lparr>tensor_network := False, tensor_neurons := 0\<rparr>)
   \<and> fused_width (demo_args\<lparr>tensor_network := False, tensor_neurons := 0\<rparr>) = Inr 8
   \<and> calculate_bottleneck_features (demo_args\<lparr>tensor_network := False, tensor_neurons := 0\<rparr>)
       = 8
   \<and> forward_width (demo_args\<lparr>tensor_network := False, tensor_neurons := 0\<rparr>) = Inr 8"
  by (simp add: demo_args_def fused_width_def forward_width_def hist_width_def
      calculate_bottleneck_features_def)

text \<open>
  C10. In a training run with validation enabled in which every epoch's validation error
  is 100 or more, \<open>validate\<close> makes no call to \<open>torch.save\<close>, the file at
  \<open>best_model_path\<close> is what it was before the run, \<open>best_epoch_index\<close> stays 0,
  and \<open>train\<close> still loads from \<open>best_model_path\<close> after the last epoch: it fails
  when there is no such file and otherwise takes over whatever parameters the file held
  before the run.
\<close>

theorem no_checkpoint_at_sentinel:
  assumes "validate_enabled a"
    and "run_epochs c ds a [0..<nat (epochs a)] (train_setup c st0) = Inr st"
    and "epoch_loss_list st = map Fin es" and "\<forall>e\<in>set es. 100 \<le> e"
  shows "count_list (calls st) TorchSave = count_list (calls st0) TorchSave
       \<and> best_model_file st = best_model_file st0
       \<and> best_epoch_index st = 0
       \<and> train c ds a st0 =
           (case best_model_file st0 of
              None \<Rightarrow> Inl FileNotFoundError
            | Some p \<Rightarrow> Inr (st\<lparr>params := p\<rparr>))"
proof -
  have nex: "\<not> (\<exists>e\<in>set es. e < 100)" using assms(4) by (auto simp: not_less)
  have keep: "min_error st = Fin 100 \<and> best_epoch_index st = 0
        \<and> best_model_file st = best_model_file st0
        \<and> count_list (calls st) TorchSave = count_list (calls st0) TorchSave"
    using best_tracking[OF assms(1,2,3), THEN conjunct2] nex by (simp only: if_False)
  have "train c ds a st0 = load_best a st" using assms(2) by (simp add: train_def)
  then show ?thesis using keep assms(1) by (simp add: load_best_def)
qed

theorem no_checkpoint_at_sentinel_witness:
  "validate_enabled demo_args
   \<and> (\<forall>e\<in>set [500, 250, 375 :: real]. 100 \<le> e) = True
   \<and> (\<exists>st. run_epochs (demo_collaborators 1000) demo_dataset demo_args
              [0..<nat (epochs demo_args)] (train_setup (demo_collaborators 1000) demo_trainer)
            = Inr st
          \<and> epoch_loss_list st = map Fin [500, 250, 375]
          \<and> count_list (calls st) TorchSave = 0
          \<and> best_model_file st = None
          \<and> best_epoch_index st = 0)
   \<and> train (demo_collaborators 1000) demo_dataset demo_args demo_trainer
       = Inl FileNotFoundError"
proof -
  let ?S = "\<lparr>params = 3, training = False, optimizer = Some (), min_error = Fin 100,
     best_model = None, best_epoch_index = 0,
     epoch_loss_list = [Fin 500, Fin 250, Fin 375],
     loss_sum = 1 / 16, best_model_file = None :: nat option,
     calls = [ZeroGrad, Backward, Step, ZeroGrad, Backward, Step, ZeroGrad, Backward,
              Step]\<rparr>"
  have v: "validate_enabled demo_args" by (simp add: demo_args_def)
  have r: "run_epochs (demo_collaborators 1000) demo_dataset demo_args
              [0..<nat (epochs demo_args)] (train_setup (demo_collaborators 1000) demo_trainer)
            = Inr ?S"
    unfolding demo_epochs by (rule demo_run_scale_1000)
  have h: "epoch_loss_list ?S = map Fin [500, 250, 375]" by simp
  have b: "\<forall>e\<in>set [500, 250, 375 :: real]. 100 \<le> e" by simp
  note th = no_checkpoint_at_sentinel[OF v r h b]
  have c: "count_list (calls ?S) TorchSave = 0 \<and> best_model_file ?S = None
         \<and> best_epoch_index ?S = 0"
    using th by (simp add: demo_trainer_def)
  have t: "train (demo_collaborators 1000) demo_dataset demo_args demo_trainer
       = Inl FileNotFoundError"
    using th by (simp add: demo_trainer_def)
  have e: "\<exists>st. run_epochs (demo_collaborators 1000) demo_dataset demo_args
              [0..<nat (epochs demo_args)] (train_setup (demo_collaborators 1000) demo_trainer)
            = Inr st
          \<and> epoch_loss_list st = map Fin [500, 250, 375]
          \<and> count_list (calls st) TorchSave = 0
          \<and> best_model_file st = None
          \<and> best_epoch_index st = 0"
    using r h c by (intro exI[of _ ?S]) blast
  from v b e t show ?thesis by simp
qed

text \<open>
  C7 concerns the value of \<open>torch.sigmoid\<close> on float tensors. The regression head is
  modelled here up to the widths it accepts (\<open>forward_width\<close>); its float values are
  outside the real-valued model.
\<close>

end
